theory Spec2Isabelle
  imports Complex_Main "HOL-Library.Sublist"
begin

section \<open>Numbers\<close>

text \<open>
  The TypeScript sources compute on IEEE doubles. A JavaScript number is a finite
  double, \<^verbatim>\<open>Infinity\<close>, \<^verbatim>\<open>-Infinity\<close> or \<^verbatim>\<open>NaN\<close>. A finite double is idealised as a
  \<^typ>\<open>real\<close>, and an arithmetic operation on finite numbers returns the exact result
  when it lies within the range of the doubles and overflows to an infinity when it
  lies beyond \<^verbatim>\<open>Number.MAX_VALUE\<close>. The rounding of a result within the range is not
  modelled here (nor is a result too small for a double flushed to zero); the one
  function whose result depends on it at a point of discontinuity, \<^verbatim>\<open>assessValuation\<close>,
  takes the rounding as a parameter.

  Zero is \<^verbatim>\<open>+0\<close>. The divisors of the programs below are inputs, powers of a sum and
  differences \<open>x - x\<close>, which are \<^verbatim>\<open>+0\<close> when they are zero, so a division of a non-zero
  number by zero has the sign of its numerator.
\<close>

datatype jsnum = Fin real | PosInf | NegInf | NaN

definition MAX_VALUE :: real where
  "MAX_VALUE = (2 ^ 53 - 1) * 2 ^ 971"

definition num :: "real \<Rightarrow> jsnum" where
  "num x = (if MAX_VALUE < x then PosInf else if x < - MAX_VALUE then NegInf else Fin x)"


fun jneg :: "jsnum \<Rightarrow> jsnum" where
  "jneg (Fin a) = Fin (- a)"
| "jneg PosInf = NegInf"
| "jneg NegInf = PosInf"
| "jneg NaN = NaN"

fun jadd :: "jsnum \<Rightarrow> jsnum \<Rightarrow> jsnum" where
  "jadd (Fin a) (Fin b) = num (a + b)"
| "jadd (Fin a) PosInf = PosInf"
| "jadd (Fin a) NegInf = NegInf"
| "jadd PosInf (Fin b) = PosInf"
| "jadd NegInf (Fin b) = NegInf"
| "jadd PosInf PosInf = PosInf"
| "jadd NegInf NegInf = NegInf"
| "jadd PosInf NegInf = NaN"
| "jadd NegInf PosInf = NaN"
| "jadd NaN y = NaN"
| "jadd x NaN = NaN"

definition jsub :: "jsnum \<Rightarrow> jsnum \<Rightarrow> jsnum" where
  "jsub x y = jadd x (jneg y)"

fun jmul :: "jsnum \<Rightarrow> jsnum \<Rightarrow> jsnum" where
  "jmul (Fin a) (Fin b) = num (a * b)"
| "jmul (Fin a) PosInf = (if a = 0 then NaN else if 0 < a then PosInf else NegInf)"
| "jmul (Fin a) NegInf = (if a = 0 then NaN else if 0 < a then NegInf else PosInf)"
| "jmul PosInf (Fin b) = (if b = 0 then NaN else if 0 < b then PosInf else NegInf)"
| "jmul NegInf (Fin b) = (if b = 0 then NaN else if 0 < b then NegInf else PosInf)"
| "jmul PosInf PosInf = PosInf"
| "jmul NegInf NegInf = PosInf"
| "jmul PosInf NegInf = NegInf"
| "jmul NegInf PosInf = NegInf"
| "jmul NaN y = NaN"
| "jmul x NaN = NaN"

fun jdiv :: "jsnum \<Rightarrow> jsnum \<Rightarrow> jsnum" where
  "jdiv (Fin a) (Fin b) =
     (if b = 0 then (if a = 0 then NaN else if 0 < a then PosInf else NegInf)
      else num (a / b))"
| "jdiv (Fin a) PosInf = Fin 0"
| "jdiv (Fin a) NegInf = Fin 0"
| "jdiv PosInf (Fin b) = (if 0 \<le> b then PosInf else NegInf)"
| "jdiv NegInf (Fin b) = (if 0 \<le> b then NegInf else PosInf)"
| "jdiv PosInf PosInf = NaN"
| "jdiv NegInf NegInf = NaN"
| "jdiv PosInf NegInf = NaN"
| "jdiv NegInf PosInf = NaN"
| "jdiv NaN y = NaN"
| "jdiv x NaN = NaN"

text \<open>
  \<^verbatim>\<open>Math.pow(x, y)\<close> on finite arguments: an integral power for a whole exponent (the
  reciprocal for a negative one, infinite at zero), \<^verbatim>\<open>NaN\<close> for a fractional power of a
  negative base, and the real power \<open>x powr y\<close> of a positive base otherwise.
\<close>

definition Math_pow :: "real \<Rightarrow> real \<Rightarrow> jsnum" where
  "Math_pow x y =
     (if y = 0 then Fin 1
      else if y = of_int \<lfloor>y\<rfloor> then
        (if 0 < y then num (x ^ nat \<lfloor>y\<rfloor>)
         else if x = 0 then PosInf
         else num (1 / x ^ nat \<lfloor>- y\<rfloor>))
      else if x < 0 then NaN
      else if x = 0 then (if 0 < y then Fin 0 else PosInf)
      else num (x powr y))"

text \<open>\<^verbatim>\<open>Math.ceil\<close>, and the comparison \<^verbatim>\<open>x >= c\<close> with a finite constant, which is false
  for \<^verbatim>\<open>NaN\<close>.\<close>

fun jceil :: "jsnum \<Rightarrow> jsnum" where
  "jceil (Fin a) = Fin (of_int \<lceil>a\<rceil>)"
| "jceil PosInf = PosInf"
| "jceil NegInf = NegInf"
| "jceil NaN = NaN"

fun jge :: "jsnum \<Rightarrow> real \<Rightarrow> bool" where
  "jge (Fin a) c = (c \<le> a)"
| "jge PosInf c = True"
| "jge NegInf c = False"
| "jge NaN c = False"

text \<open>
  The rounding of a result: \<open>rnd\<close> maps the exact result of an operation to the double
  that the operation returns (round to nearest, for the arithmetic of the platform);
  infinities and \<^verbatim>\<open>NaN\<close> are not rounded.
\<close>

fun jround :: "(real \<Rightarrow> real) \<Rightarrow> jsnum \<Rightarrow> jsnum" where
  "jround rnd (Fin a) = num (rnd a)"
| "jround rnd PosInf = PosInf"
| "jround rnd NegInf = NegInf"
| "jround rnd NaN = NaN"

text \<open>\<^verbatim>\<open>x || d\<close> on an optional number: \<^verbatim>\<open>undefined\<close> and \<^verbatim>\<open>0\<close> are falsy.\<close>

definition or_default :: "'a::zero option \<Rightarrow> 'a \<Rightarrow> 'a" where
  "or_default x d = (case x of None \<Rightarrow> d | Some v \<Rightarrow> if v = 0 then d else v)"

text \<open>
  \<^verbatim>\<open>xs[i]\<close> for a number \<open>i\<close>: the element when \<open>i\<close> is a whole number and an index of the
  array, \<^verbatim>\<open>undefined\<close> otherwise (a fractional or negative \<open>i\<close> names no element).
\<close>

definition array_read :: "'a list \<Rightarrow> real \<Rightarrow> 'a option" where
  "array_read xs i =
     (if 0 \<le> i \<and> i = of_int \<lfloor>i\<rfloor> \<and> nat \<lfloor>i\<rfloor> < length xs then Some (xs ! nat \<lfloor>i\<rfloor>)
      else None)"

section \<open>DCF calculator (dcf-calculator.ts)\<close>

text \<open>
  The inputs are finite numbers. \<^verbatim>\<open>projectionYears\<close> is a number like the others: the
  interface does not make it whole or positive.
\<close>

record DCFInputs =
  freeCashFlow :: real
  totalDebt :: real
  cash :: real
  sharesOutstanding :: real
  marketCap :: real
  revenueGrowth :: "real option"
  discountRate :: "real option"
  terminalGrowthRate :: "real option"
  projectionYears :: "real option"

text \<open>
  The fields of \<^verbatim>\<open>DCFOutputs\<close>. A field name can belong to one record only, so the
  fields of the nested objects carry a prefix: \<open>asm_\<close> for \<^verbatim>\<open>assumptions\<close>, \<open>tv_\<close> for
  \<^verbatim>\<open>terminalValue\<close>, \<open>sc_\<close> for an entry of \<^verbatim>\<open>sensitivity\<close>. The optional fields
  \<^verbatim>\<open>currentPrice\<close>, \<^verbatim>\<open>upside\<close> and \<^verbatim>\<open>recommendation\<close> are never set by
  \<^verbatim>\<open>calculateDCF\<close>; \<^verbatim>\<open>assessValuation\<close> returns them as an object of their own.
\<close>

record Assumptions =
  asm_discountRate :: real
  asm_terminalGrowthRate :: real
  asm_projectionYears :: real
  initialFCF :: real
  fcfGrowthRate :: real

record ProjectedCashFlow =
  year :: nat
  fcf :: jsnum
  presentValue :: jsnum
  discountFactor :: jsnum

record TerminalValue =
  tv_nominal :: jsnum
  tv_presentValue :: jsnum

datatype scenario_name = Bear | Base | Bull

record Scenario =
  scenario :: scenario_name
  sc_discountRate :: real
  growthRate :: real
  sc_intrinsicValue :: jsnum

record DCFOutputs =
  intrinsicValue :: jsnum
  enterpriseValue :: jsnum
  equityValue :: jsnum
  assumptions :: Assumptions
  projectedCashFlows :: "ProjectedCashFlow list"
  terminalValue :: TerminalValue
  sensitivity :: "Scenario list"

datatype js_error = TypeError

definition calculateWACC :: "real \<Rightarrow> real option \<Rightarrow> real" where
  "calculateWACC mcap customRate =
     (case customRate of
        Some r \<Rightarrow> r
      | None \<Rightarrow>
          if mcap > 200000000000 then 9.0
          else if mcap > 50000000000 then 10.0
          else if mcap > 10000000000 then 11.0
          else if mcap > 2000000000 then 12.5
          else 14.0)"

definition estimateFCFGrowthRate :: "real option \<Rightarrow> real \<Rightarrow> real" where
  "estimateFCFGrowthRate revGrowth termGrowth =
     (case revGrowth of
        None \<Rightarrow> (termGrowth + 8) / 2
      | Some g \<Rightarrow>
          (let cappedGrowth = min g 25
           in if cappedGrowth < 0 then termGrowth
              else cappedGrowth * 0.7 + termGrowth * 0.3))"

text \<open>
  The helper \<^verbatim>\<open>calcIntrinsicValue\<close> of \<^verbatim>\<open>calculateSensitivity\<close>; it closes over the
  inputs, the horizon and the net debt, which are parameters here. The loop
  \<^verbatim>\<open>for (year = 1; year <= projectionYears; year++) sumPV += pv\<close> runs over the whole
  years up to the horizon and is a fold over them. A rate is an input or an input
  shifted by a constant, so \<open>1 + rate / 100\<close> and the difference of two rates over 100
  stay within the range of the doubles and are plain real arithmetic; powers, products,
  quotients and sums of computed values can overflow.
\<close>

definition calcIntrinsicValue ::
  "DCFInputs \<Rightarrow> real \<Rightarrow> jsnum \<Rightarrow> real \<Rightarrow> real \<Rightarrow> real \<Rightarrow> jsnum" where
  "calcIntrinsicValue inputs projYears netDebt discRate fcfGrowth termGrowth =
     (let sumPV = fold (\<lambda>yr s.
                    let f = jmul (Fin (freeCashFlow inputs))
                                 (Math_pow (1 + fcfGrowth / 100) (real yr));
                        pv = jdiv f (Math_pow (1 + discRate / 100) (real yr))
                    in jadd s pv) [1..<Suc (nat \<lfloor>projYears\<rfloor>)] (Fin 0);
          finalFCF = jmul (Fin (freeCashFlow inputs))
                          (Math_pow (1 + fcfGrowth / 100) projYears);
          tv = jdiv (jmul finalFCF (Fin (1 + termGrowth / 100)))
                    (Fin (discRate / 100 - termGrowth / 100));
          tvPV = jdiv tv (Math_pow (1 + discRate / 100) projYears);
          entValue = jadd sumPV tvPV;
          eqValue = jsub entValue netDebt
      in jdiv eqValue (Fin (sharesOutstanding inputs)))"

definition calculateSensitivity ::
  "DCFInputs \<Rightarrow> real \<Rightarrow> real \<Rightarrow> real \<Rightarrow> real \<Rightarrow> jsnum \<Rightarrow> Scenario list" where
  "calculateSensitivity inputs baseDiscountRate baseFCFGrowth baseTerminalGrowth projYears netDebt =
     [ \<lparr> scenario = Bear,
         sc_discountRate = baseDiscountRate + 2,
         growthRate = max (baseFCFGrowth - 2) 0,
         sc_intrinsicValue = calcIntrinsicValue inputs projYears netDebt
            (baseDiscountRate + 2)
            (max (baseFCFGrowth - 2) 0)
            (max (baseTerminalGrowth - 1) 2) \<rparr>,
       \<lparr> scenario = Base,
         sc_discountRate = baseDiscountRate,
         growthRate = baseFCFGrowth,
         sc_intrinsicValue = calcIntrinsicValue inputs projYears netDebt
            baseDiscountRate
            baseFCFGrowth
            baseTerminalGrowth \<rparr>,
       \<lparr> scenario = Bull,
         sc_discountRate = max (baseDiscountRate - 2) 5,
         growthRate = min (baseFCFGrowth + 2) 25,
         sc_intrinsicValue = calcIntrinsicValue inputs projYears netDebt
            (max (baseDiscountRate - 2) 5)
            (min (baseFCFGrowth + 2) 25)
            (min (baseTerminalGrowth + 1) 4) \<rparr> ]"

text \<open>
  \<^verbatim>\<open>calculateDCF\<close>. It has no check of its inputs. Its one failure is the read
  \<^verbatim>\<open>projectedCashFlows[projectionYears - 1].fcf\<close>: the loop has pushed one entry for each
  whole year up to the horizon, so unless the horizon is a whole number of at least one
  year the element is \<^verbatim>\<open>undefined\<close> and the property access throws a \<^verbatim>\<open>TypeError\<close>. The
  array holds any number of years (memory is not modelled).
\<close>

definition calculateDCF :: "DCFInputs \<Rightarrow> js_error + DCFOutputs" where
  "calculateDCF inputs =
     (let projYears = or_default (projectionYears inputs) 5;
          termGrowth = or_default (terminalGrowthRate inputs) 3.0;
          discRate = calculateWACC (marketCap inputs) (discountRate inputs);
          fcfGrowth = estimateFCFGrowthRate (revenueGrowth inputs) termGrowth;
          netDebt = jsub (Fin (totalDebt inputs)) (Fin (cash inputs));
          flows = map (\<lambda>yr.
                    let f = jmul (Fin (freeCashFlow inputs))
                                 (Math_pow (1 + fcfGrowth / 100) (real yr));
                        df = Math_pow (1 + discRate / 100) (real yr);
                        pv = jdiv f df
                    in \<lparr> year = yr, fcf = f, presentValue = pv, discountFactor = df \<rparr>)
                  [1..<Suc (nat \<lfloor>projYears\<rfloor>)]
      in case array_read flows (projYears - 1) of
           None \<Rightarrow> Inl TypeError
         | Some finalYear \<Rightarrow>
             (let finalYearFCF = fcf finalYear;
                  terminalValueNominal =
                    jdiv (jmul finalYearFCF (Fin (1 + termGrowth / 100)))
                         (Fin (discRate / 100 - termGrowth / 100));
                  terminalDiscountFactor = Math_pow (1 + discRate / 100) projYears;
                  terminalValuePV = jdiv terminalValueNominal terminalDiscountFactor;
                  sumOfDiscountedCashFlows =
                    fold (\<lambda>cf s. jadd s (presentValue cf)) flows (Fin 0);
                  entValue = jadd sumOfDiscountedCashFlows terminalValuePV;
                  eqValue = jsub entValue netDebt;
                  intrValue = jdiv eqValue (Fin (sharesOutstanding inputs));
                  sens = calculateSensitivity inputs discRate fcfGrowth termGrowth projYears netDebt
              in Inr \<lparr> intrinsicValue = intrValue,
                       enterpriseValue = entValue,
                       equityValue = eqValue,
                       assumptions = \<lparr> asm_discountRate = discRate,
                                       asm_terminalGrowthRate = termGrowth,
                                       asm_projectionYears = projYears,
                                       initialFCF = freeCashFlow inputs,
                                       fcfGrowthRate = fcfGrowth \<rparr>,
                       projectedCashFlows = flows,
                       terminalValue = \<lparr> tv_nominal = terminalValueNominal,
                                         tv_presentValue = terminalValuePV \<rparr>,
                       sensitivity = sens \<rparr>))"

datatype recommendation_name = StrongBuy | Buy | Hold | Sell | StrongSell

record Valuation =
  currentPrice :: jsnum
  upside :: jsnum
  recommendation :: recommendation_name

text \<open>
  \<^verbatim>\<open>assessValuation\<close>. Both arguments are JavaScript numbers: \<^verbatim>\<open>calculateDCF\<close> can
  return an intrinsic value that is infinite or \<^verbatim>\<open>NaN\<close>. The recommendation is decided
  by comparing the double \<^verbatim>\<open>upside\<close> with the four thresholds, so the rounding of the
  subtraction, the division and the multiplication that make it is kept: \<open>rnd\<close> is the
  rounding of the platform, and whatever holds for every \<open>rnd\<close> holds for the doubles. A
  comparison with \<^verbatim>\<open>NaN\<close> is false, so a \<^verbatim>\<open>NaN\<close> upside falls through to the last branch.
\<close>

definition assessValuation :: "(real \<Rightarrow> real) \<Rightarrow> jsnum \<Rightarrow> jsnum \<Rightarrow> Valuation" where
  "assessValuation rnd intrValue price =
     (let up = jround rnd
                 (jmul (jround rnd (jdiv (jround rnd (jsub intrValue price)) price))
                       (Fin 100));
          rec = (if jge up 30 then StrongBuy
                 else if jge up 15 then Buy
                 else if jge up (- 15) then Hold
                 else if jge up (- 30) then Sell
                 else StrongSell)
      in \<lparr> currentPrice = price, upside = up, recommendation = rec \<rparr>)"

section \<open>Rate limiter (rate-limiter.ts)\<close>

text \<open>
  The configuration. Its fields are JavaScript numbers. The delays are whole numbers
  of milliseconds and the batch size is a whole count of items here; \<^verbatim>\<open>maxRetries\<close>,
  which the code only compares with the attempt counter, is any finite number.
\<close>

record RateLimiterConfig =
  minDelayMs :: int
  maxRetries :: real
  baseBackoffMs :: int
  batchSize :: int
  interBatchDelayMs :: int

definition DEFAULT_CONFIG :: RateLimiterConfig where
  "DEFAULT_CONFIG = \<lparr> minDelayMs = 500, maxRetries = 3, baseBackoffMs = 1000,
                       batchSize = 10, interBatchDelayMs = 2000 \<rparr>"

text \<open>
  A thrown value is an \<^verbatim>\<open>Error\<close> object, of which only the message matters here, or
  anything else, kept as the string that \<^verbatim>\<open>String(error)\<close> makes of it.
\<close>

datatype Error = Error (message: string)

datatype thrown = ThrownError Error | ThrownOther string

text \<open>
  The limiter's own state is \<^verbatim>\<open>lastRequestTime\<close>, \<^verbatim>\<open>requestCount\<close> and \<^verbatim>\<open>errorCount\<close>.
  It runs against a clock, \<open>now\<close> (what \<^verbatim>\<open>Date.now()\<close> returns, in milliseconds), and
  its effects on the outside are kept in a journal, in the order in which they happen:
  every call of \<^verbatim>\<open>this.sleep\<close>, tagged with the place that calls it; every call of the
  fetch function, with its number and the clock value at which it is made; and every
  \<^verbatim>\<open>console.warn\<close>, with the delay, the attempt number and the retry limit that its
  message prints.
\<close>

datatype sleep_site = Throttle | Backoff | InterBatch

datatype event =
    Sleep sleep_site int
  | Request nat int
  | WarnRateLimited int nat real
  | WarnRequestFailed int nat real

record world =
  now :: int
  lastRequestTime :: int
  requestCount :: nat
  errorCount :: nat
  journal :: "event list"

text \<open>
  \<^verbatim>\<open>sleep(ms)\<close> resolves after a timer of \<open>ms\<close> milliseconds: the clock advances by
  exactly \<open>ms\<close> (a real timer takes at least that long), and by nothing when \<open>ms\<close> is
  negative. Delays stay below the \<open>2^31\<close> milliseconds from which on the timer of the
  runtime fires at once. The code itself takes no time; only sleeps and fetches do.
\<close>

definition sleep :: "sleep_site \<Rightarrow> int \<Rightarrow> world \<Rightarrow> world" where
  "sleep site ms w = w \<lparr> now := now w + max ms 0, journal := journal w @ [Sleep site ms] \<rparr>"

definition warn :: "event \<Rightarrow> world \<Rightarrow> world" where
  "warn e w = w \<lparr> journal := journal w @ [e] \<rparr>"

definition throttle :: "RateLimiterConfig \<Rightarrow> world \<Rightarrow> world" where
  "throttle cfg w =
     (let timeSinceLastRequest = now w - lastRequestTime w;
          w1 = (if timeSinceLastRequest < minDelayMs cfg
                then sleep Throttle (minDelayMs cfg - timeSinceLastRequest) w
                else w)
      in w1 \<lparr> lastRequestTime := now w1 \<rparr>)"

definition getBackoffDelay :: "RateLimiterConfig \<Rightarrow> nat \<Rightarrow> int" where
  "getBackoffDelay cfg attempt = baseBackoffMs cfg * 2 ^ attempt"

text \<open>
  \<^verbatim>\<open>isRateLimitError\<close> looks for four keywords in the lower-cased message. Messages are
  ASCII strings here.
\<close>

definition toLowerCase :: "string \<Rightarrow> string" where
  "toLowerCase s =
     map (\<lambda>c. let n = (of_char c :: nat)
               in if 65 \<le> n \<and> n \<le> 90 then char_of (n + 32) else c) s"

fun str_includes :: "string \<Rightarrow> string \<Rightarrow> bool" where
  "str_includes [] sub = (sub = [])"
| "str_includes (c # cs) sub = (prefix sub (c # cs) \<or> str_includes cs sub)"

definition isRateLimitError :: "thrown \<Rightarrow> bool" where
  "isRateLimitError error =
     (case error of
        ThrownError e \<Rightarrow>
          (let msg = toLowerCase (message e)
           in str_includes msg ''rate limit'' \<or> str_includes msg ''too many requests''
              \<or> str_includes msg ''429'' \<or> str_includes msg ''throttl'')
      | ThrownOther _ \<Rightarrow> False)"

definition toError :: "thrown \<Rightarrow> Error" where
  "toError error = (case error of ThrownError e \<Rightarrow> e | ThrownOther s \<Rightarrow> Error s)"

text \<open>
  The fetch function is the outside world. A call may take time and may resolve or
  reject, differently each time; the model asks a function of the request number (the
  value of \<^verbatim>\<open>requestCount\<close> once the call is counted, which differs for every call of a
  run) for the duration in milliseconds and the outcome.
\<close>

type_synonym 'r request = "nat \<Rightarrow> nat \<times> (thrown + 'r)"

text \<open>
  The loop of \<^verbatim>\<open>execute\<close>, \<^verbatim>\<open>for (attempt = 0; attempt <= maxRetries; attempt++)\<close>, with
  \<^verbatim>\<open>lastError\<close> threaded through. Both retry branches are kept as the source has them.
  Falling out of the \<^verbatim>\<open>catch\<close> block on the last attempt ends the loop, and what is
  thrown after it is \<^verbatim>\<open>lastError || new Error(...)\<close>.
\<close>

function execute_loop ::
  "RateLimiterConfig \<Rightarrow> 'r request \<Rightarrow> nat \<Rightarrow> Error option \<Rightarrow> world \<Rightarrow> (Error + 'r) \<times> world" where
  "execute_loop cfg fn attempt lastError w =
     (if real attempt \<le> maxRetries cfg then
        (let w1 = throttle cfg w;
             w2 = w1 \<lparr> requestCount := requestCount w1 + 1 \<rparr>;
             w3 = w2 \<lparr> journal := journal w2 @ [Request (requestCount w2) (now w2)] \<rparr>;
             reply = fn (requestCount w3);
             w4 = w3 \<lparr> now := now w3 + int (fst reply) \<rparr>
         in case snd reply of
              Inr result \<Rightarrow> (Inr result, w4)
            | Inl error \<Rightarrow>
                (let w5 = w4 \<lparr> errorCount := errorCount w4 + 1 \<rparr>;
                     lastError' = Some (toError error)
                 in if isRateLimitError error \<and> real attempt < maxRetries cfg then
                      (let backoffDelay = getBackoffDelay cfg attempt;
                           w6 = warn (WarnRateLimited backoffDelay (attempt + 1) (maxRetries cfg)) w5;
                           w7 = sleep Backoff backoffDelay w6
                       in execute_loop cfg fn (attempt + 1) lastError' w7)
                    else if real attempt < maxRetries cfg then
                      (let backoffDelay = getBackoffDelay cfg attempt;
                           w6 = warn (WarnRequestFailed backoffDelay (attempt + 1) (maxRetries cfg)) w5;
                           w7 = sleep Backoff backoffDelay w6
                       in execute_loop cfg fn (attempt + 1) lastError' w7)
                    else execute_loop cfg fn (attempt + 1) lastError' w5))
      else (Inl (case lastError of
                   Some e \<Rightarrow> e
                 | None \<Rightarrow> Error ''Request failed after all retries''), w))"
  by pat_completeness auto
termination
  by (relation "measure (\<lambda>(cfg, fn, attempt, lastError, w).
                  nat (\<lfloor>maxRetries cfg\<rfloor> + 1 - int attempt))")
     (auto simp: le_floor_iff)

declare execute_loop.simps [simp del]

definition execute :: "RateLimiterConfig \<Rightarrow> 'r request \<Rightarrow> world \<Rightarrow> (Error + 'r) \<times> world" where
  "execute cfg fn w = execute_loop cfg fn 0 None w"

text \<open>
  \<^verbatim>\<open>Array.prototype.slice(start, end)\<close> on whole-number arguments: a negative index
  counts from the end, and both are clamped to the array.
\<close>

definition slice :: "'a list \<Rightarrow> int \<Rightarrow> int \<Rightarrow> 'a list" where
  "slice xs start fin =
     (let len = int (length xs);
          k = (if start < 0 then max (len + start) 0 else min start len);
          final = (if fin < 0 then max (len + fin) 0 else min fin len)
      in take (nat (final - k)) (drop (nat k) xs))"

text \<open>
  The loop \<^verbatim>\<open>for (i = 0; i < items.length; i += batchSize) batches.push(items.slice(i, i + batchSize))\<close>.
  With a batch size of zero or less and a non-empty list it never ends, so it is a
  partial function: \<open>None\<close> is not returning.
\<close>

partial_function (option) split_batches ::
  "int \<Rightarrow> 't list \<Rightarrow> int \<Rightarrow> 't list list \<Rightarrow> 't list list option" where
  "split_batches bsize items i batches =
     (if i < int (length items)
      then split_batches bsize items (i + bsize) (batches @ [slice items i (i + bsize)])
      else Some batches)"

text \<open>
  The options of \<^verbatim>\<open>executeBatch\<close>. A callback may throw: it returns the thrown value,
  or \<open>None\<close> when it returns normally. \<^verbatim>\<open>continueOnError\<close> defaults to \<^verbatim>\<open>true\<close>.
\<close>

record 't BatchOptions =
  onProgress :: "(nat \<Rightarrow> nat \<Rightarrow> thrown option) option"
  onError :: "('t \<Rightarrow> Error \<Rightarrow> thrown option) option"
  continueOnError :: "bool option"

type_synonym ('t, 'r) results = "'t \<rightharpoonup> (Error + 'r)"

type_synonym ('t, 'r) batch_state = "('t, 'r) results \<times> nat \<times> world"

definition or_true :: "bool option \<Rightarrow> bool" where
  "or_true b = (case b of None \<Rightarrow> True | Some v \<Rightarrow> v)"

definition call_back :: "'a option \<Rightarrow> ('a \<Rightarrow> thrown option) \<Rightarrow> thrown option" where
  "call_back cb app = (case cb of None \<Rightarrow> None | Some f \<Rightarrow> app f)"

text \<open>
  One round of the inner loop of \<^verbatim>\<open>executeBatch\<close>: the \<^verbatim>\<open>try\<close>/\<^verbatim>\<open>catch\<close> around
  \<^verbatim>\<open>execute\<close>, then \<^verbatim>\<open>completed++\<close> and the progress callback. The state is the result
  map, the counter and the world; \<open>Inl\<close> is an exception leaving \<^verbatim>\<open>executeBatch\<close>.
\<close>

definition process_item ::
  "RateLimiterConfig \<Rightarrow> ('t \<Rightarrow> 'r request) \<Rightarrow> 't BatchOptions \<Rightarrow> nat \<Rightarrow> 't
   \<Rightarrow> ('t, 'r) batch_state \<Rightarrow> (thrown \<times> world) + ('t, 'r) batch_state" where
  "process_item cfg fn opts totalItems item st =
     (case st of (results, completed, w) \<Rightarrow>
        (case execute cfg (fn item) w of (outcome, w1) \<Rightarrow>
           (let caught =
                  (case outcome of
                     Inr result \<Rightarrow> Inr (results(item \<mapsto> Inr result))
                   | Inl err \<Rightarrow>
                       (let results1 = results(item \<mapsto> Inl err)
                        in case call_back (onError opts) (\<lambda>f. f item err) of
                             Some x \<Rightarrow> Inl x
                           | None \<Rightarrow>
                               if \<not> or_true (continueOnError opts) then Inl (ThrownError err)
                               else Inr results1))
            in case caught of
                 Inl x \<Rightarrow> Inl (x, w1)
               | Inr results2 \<Rightarrow>
                   (let completed1 = completed + 1
                    in case call_back (onProgress opts) (\<lambda>f. f completed1 totalItems) of
                         Some x \<Rightarrow> Inl (x, w1)
                       | None \<Rightarrow> Inr (results2, completed1, w1)))))"

fun process_batch ::
  "RateLimiterConfig \<Rightarrow> ('t \<Rightarrow> 'r request) \<Rightarrow> 't BatchOptions \<Rightarrow> nat \<Rightarrow> 't list
   \<Rightarrow> ('t, 'r) batch_state \<Rightarrow> (thrown \<times> world) + ('t, 'r) batch_state" where
  "process_batch cfg fn opts totalItems [] st = Inr st"
| "process_batch cfg fn opts totalItems (item # rest) st =
     (case process_item cfg fn opts totalItems item st of
        Inl abort \<Rightarrow> Inl abort
      | Inr st1 \<Rightarrow> process_batch cfg fn opts totalItems rest st1)"

text \<open>
  The outer loop. The inter-batch sleep is skipped after the last batch
  (\<^verbatim>\<open>batchIndex < batches.length - 1\<close>), that is when no batch remains.
\<close>

fun process_batches ::
  "RateLimiterConfig \<Rightarrow> ('t \<Rightarrow> 'r request) \<Rightarrow> 't BatchOptions \<Rightarrow> nat \<Rightarrow> 't list list
   \<Rightarrow> ('t, 'r) batch_state \<Rightarrow> (thrown \<times> world) + ('t, 'r) batch_state" where
  "process_batches cfg fn opts totalItems [] st = Inr st"
| "process_batches cfg fn opts totalItems (batch # rest) st =
     (case process_batch cfg fn opts totalItems batch st of
        Inl abort \<Rightarrow> Inl abort
      | Inr (results, completed, w) \<Rightarrow>
          process_batches cfg fn opts totalItems rest
            (results, completed,
             if rest \<noteq> [] then sleep InterBatch (interBatchDelayMs cfg) w else w))"

definition executeBatch ::
  "RateLimiterConfig \<Rightarrow> 't list \<Rightarrow> ('t \<Rightarrow> 'r request) \<Rightarrow> 't BatchOptions \<Rightarrow> world
   \<Rightarrow> ((thrown + ('t, 'r) results) \<times> world) option" where
  "executeBatch cfg items fn opts w =
     (case split_batches (batchSize cfg) items 0 [] of
        None \<Rightarrow> None
      | Some batches \<Rightarrow>
          Some (case process_batches cfg fn opts (length items) batches (Map.empty, 0, w) of
                  Inl (x, w1) \<Rightarrow> (Inl x, w1)
                | Inr (results, completed, w1) \<Rightarrow> (Inr results, w1)))"

text \<open>\<^verbatim>\<open>estimateTime\<close>, with \<^verbatim>\<open>Math.ceil\<close> on a number that may not be finite.\<close>

record EstimatedTime =
  estimatedSeconds :: jsnum
  estimatedMinutes :: jsnum

definition estimateTime :: "RateLimiterConfig \<Rightarrow> int \<Rightarrow> EstimatedTime" where
  "estimateTime cfg itemCount =
     (let batches = jceil (jdiv (Fin (of_int itemCount)) (Fin (of_int (batchSize cfg))));
          requestTime = jmul (Fin (of_int itemCount)) (Fin (of_int (minDelayMs cfg)));
          interBatchTime = jmul (jsub batches (Fin 1)) (Fin (of_int (interBatchDelayMs cfg)));
          totalMs = jadd requestTime interBatchTime
      in \<lparr> estimatedSeconds = jceil (jdiv totalMs (Fin 1000)),
           estimatedMinutes = jceil (jdiv totalMs (Fin 60000)) \<rparr>)"

subsection \<open>Observations on a run\<close>

text \<open>
  What the statements below read off a run: the total time slept in a journal, the
  requests and backoff sleeps of a journal in their order, the world right after one
  request, and the warning a retry prints.
\<close>

fun total_slept :: "event list \<Rightarrow> int" where
  "total_slept [] = 0"
| "total_slept (Sleep site ms # es) = max ms 0 + total_slept es"
| "total_slept (_ # es) = total_slept es"

fun retry_trace :: "event list \<Rightarrow> event list" where
  "retry_trace [] = []"
| "retry_trace (Request n t # es) = Request n t # retry_trace es"
| "retry_trace (Sleep site ms # es) =
     (if site = Backoff then Sleep site ms # retry_trace es else retry_trace es)"
| "retry_trace (_ # es) = retry_trace es"

definition after_request :: "RateLimiterConfig \<Rightarrow> 'r request \<Rightarrow> world \<Rightarrow> world" where
  "after_request cfg fn w =
     (let w1 = throttle cfg w;
          w2 = w1 \<lparr> requestCount := requestCount w1 + 1 \<rparr>;
          w3 = w2 \<lparr> journal := journal w2 @ [Request (requestCount w2) (now w2)] \<rparr>
      in w3 \<lparr> now := now w3 + int (fst (fn (requestCount w3))) \<rparr>)"

definition retry_warning :: "RateLimiterConfig \<Rightarrow> nat \<Rightarrow> thrown \<Rightarrow> event" where
  "retry_warning cfg attempt x =
     (if isRateLimitError x
      then WarnRateLimited (getBackoffDelay cfg attempt) (attempt + 1) (maxRetries cfg)
      else WarnRequestFailed (getBackoffDelay cfg attempt) (attempt + 1) (maxRetries cfg))"


text \<open>
  One call of \<^verbatim>\<open>execute\<close> seen from the request counter: the requests numbered
  \<open>lo + 1, ..., hi\<close> are its attempts. All but the last failed, there are at most
  \<^verbatim>\<open>maxRetries\<close> retries, and the outcome is that of the last request: its value, or,
  when it failed and no attempt was left, the \<^verbatim>\<open>Error\<close> made of what it threw.
\<close>

definition run_of :: "RateLimiterConfig \<Rightarrow> 'r request \<Rightarrow> nat \<Rightarrow> nat \<Rightarrow> (Error + 'r) \<Rightarrow> bool" where
  "run_of cfg f lo hi outcome \<longleftrightarrow>
     lo < hi
     \<and> real (hi - lo - 1) \<le> maxRetries cfg
     \<and> (\<forall>i. lo < i \<and> i < hi \<longrightarrow> isl (snd (f i)))
     \<and> (case outcome of
           Inr r \<Rightarrow> snd (f hi) = Inr r
         | Inl e \<Rightarrow> maxRetries cfg < real (hi - lo)
                     \<and> (\<exists>x. snd (f hi) = Inl x \<and> e = toError x))"

text \<open>
  The runs of a batch, one per position of the list and in its order, each given by
  its item, the number of its last request and its outcome: they share out the requests
  numbered \<open>lo + 1, ..., hi\<close> consecutively. \<open>record_runs\<close> is the map that setting each
  item to its outcome, in that order, builds.
\<close>

fun schedule_of ::
  "RateLimiterConfig \<Rightarrow> ('t \<Rightarrow> 'r request) \<Rightarrow> ('t \<times> nat \<times> (Error + 'r)) list \<Rightarrow> nat \<Rightarrow> nat \<Rightarrow> bool"
  where
  "schedule_of cfg fn [] lo hi \<longleftrightarrow> lo = hi"
| "schedule_of cfg fn (run # runs) lo hi \<longleftrightarrow>
     run_of cfg (fn (fst run)) lo (fst (snd run)) (snd (snd run))
     \<and> schedule_of cfg fn runs (fst (snd run)) hi"

definition record_runs ::
  "('t \<times> nat \<times> (Error + 'r)) list \<Rightarrow> ('t, 'r) results \<Rightarrow> ('t, 'r) results" where
  "record_runs runs results = fold (\<lambda>run m. m(fst run \<mapsto> snd (snd run))) runs results"

text \<open>
  Callbacks that never throw, and fetches that resolve at once.
\<close>

definition quiet :: "'t BatchOptions \<Rightarrow> bool" where
  "quiet opts \<longleftrightarrow>
     (case onProgress opts of None \<Rightarrow> True | Some f \<Rightarrow> \<forall>completed n. f completed n = None)
     \<and> (case onError opts of None \<Rightarrow> True | Some f \<Rightarrow> \<forall>item e. f item e = None)"


section \<open>Persisted schema (schema.ts)\<close>

text \<open>
  \<^verbatim>\<open>SCHEMA_SQL\<close> is a constant: a string of SQL statements, which \<^verbatim>\<open>initializeDatabase\<close>
  splits at the semicolons and executes one by one. Its model is the abstract syntax of
  those statements, transcribed statement by statement and column by column.
\<close>

datatype sql_type = TEXT | REAL | INTEGER

datatype sql_default = DefaultText string | DefaultInteger int | DefaultReal real | DefaultNow

record column =
  col_name :: string
  col_type :: sql_type
  not_null :: bool
  primary_key :: bool
  autoincrement :: bool
  default_value :: "sql_default option"
  check_in :: "string list option"

record foreign_key =
  fk_column :: string
  fk_table :: string
  fk_references :: string

record table =
  table_name :: string
  columns :: "column list"
  foreign_keys :: "foreign_key list"
  unique_constraints :: "string list list"

record index =
  index_name :: string
  index_table :: string
  index_column :: string

datatype statement = CreateTable table | CreateIndex index

text \<open>Shorthands for the column forms that occur: a bare column, \<^verbatim>\<open>NOT NULL\<close>, and
  \<^verbatim>\<open>NOT NULL DEFAULT d\<close>.\<close>

definition col :: "string \<Rightarrow> sql_type \<Rightarrow> column" where
  "col n t = \<lparr> col_name = n, col_type = t, not_null = False, primary_key = False,
               autoincrement = False, default_value = None, check_in = None \<rparr>"

definition col_nn :: "string \<Rightarrow> sql_type \<Rightarrow> column" where
  "col_nn n t = (col n t) \<lparr> not_null := True \<rparr>"

definition col_def :: "string \<Rightarrow> sql_type \<Rightarrow> sql_default \<Rightarrow> column" where
  "col_def n t d = (col n t) \<lparr> not_null := True, default_value := Some d \<rparr>"

definition id_text :: column where
  "id_text = (col ''id'' TEXT) \<lparr> primary_key := True \<rparr>"

definition id_auto :: column where
  "id_auto = (col ''id'' INTEGER) \<lparr> primary_key := True, autoincrement := True \<rparr>"

definition portfolio_fk :: foreign_key where
  "portfolio_fk = \<lparr> fk_column = ''portfolio_id'', fk_table = ''portfolios'',
                     fk_references = ''id'' \<rparr>"

definition portfolios :: table where
  "portfolios =
     \<lparr> table_name = ''portfolios'',
       columns =
         [ id_text,
           col_nn ''name'' TEXT,
           col_def ''strategy'' TEXT (DefaultText ''value''),
           col_nn ''initial_capital'' REAL,
           col_nn ''current_cash'' REAL,
           col_def ''target_holdings'' INTEGER (DefaultInteger 20),
           col_def ''max_position_pct'' REAL (DefaultReal 0.10),
           col_def ''min_position_pct'' REAL (DefaultReal 0.02),
           col_def ''max_sector_pct'' REAL (DefaultReal 0.25),
           col_def ''max_monthly_turnover'' INTEGER (DefaultInteger 10),
           col_def ''created_at'' TEXT DefaultNow,
           col_def ''updated_at'' TEXT DefaultNow ],
       foreign_keys = [],
       unique_constraints = [] \<rparr>"

definition holdings :: table where
  "holdings =
     \<lparr> table_name = ''holdings'',
       columns =
         [ id_auto,
           col_nn ''portfolio_id'' TEXT,
           col_nn ''ticker'' TEXT,
           col_nn ''shares'' REAL,
           col_nn ''avg_cost'' REAL,
           col ''current_price'' REAL,
           col ''sector'' TEXT,
           col_def ''acquired_at'' TEXT DefaultNow,
           col_def ''updated_at'' TEXT DefaultNow ],
       foreign_keys = [portfolio_fk],
       unique_constraints = [ [''portfolio_id'', ''ticker''] ] \<rparr>"

definition transactions :: table where
  "transactions =
     \<lparr> table_name = ''transactions'',
       columns =
         [ id_auto,
           col_nn ''portfolio_id'' TEXT,
           col_nn ''ticker'' TEXT,
           (col_nn ''action'' TEXT) \<lparr> check_in := Some [''BUY'', ''SELL''] \<rparr>,
           col_nn ''shares'' REAL,
           col_nn ''price'' REAL,
           col_nn ''total_value'' REAL,
           col ''reason'' TEXT,
           col ''score_at_trade'' REAL,
           col_def ''executed_at'' TEXT DefaultNow ],
       foreign_keys = [portfolio_fk],
       unique_constraints = [] \<rparr>"

definition snapshots :: table where
  "snapshots =
     \<lparr> table_name = ''snapshots'',
       columns =
         [ id_auto,
           col_nn ''portfolio_id'' TEXT,
           col_nn ''snapshot_date'' TEXT,
           col_nn ''total_value'' REAL,
           col_nn ''cash_value'' REAL,
           col_nn ''holdings_value'' REAL,
           col_nn ''holdings_count'' INTEGER,
           col ''period_return_pct'' REAL,
           col ''cumulative_return_pct'' REAL,
           col ''spy_period_return_pct'' REAL,
           col ''spy_cumulative_return_pct'' REAL,
           col ''alpha_pct'' REAL,
           col_nn ''holdings_data'' TEXT,
           col_def ''created_at'' TEXT DefaultNow ],
       foreign_keys = [portfolio_fk],
       unique_constraints = [] \<rparr>"

definition stock_scores :: table where
  "stock_scores =
     \<lparr> table_name = ''stock_scores'',
       columns =
         [ id_auto,
           col_nn ''ticker'' TEXT,
           col_nn ''score_date'' TEXT,
           col_nn ''total_score'' REAL,
           col ''value_score'' REAL,
           col ''quality_score'' REAL,
           col ''growth_score'' REAL,
           col ''momentum_score'' REAL,
           col ''risk_score'' REAL,
           col ''pe_ratio'' REAL,
           col ''pb_ratio'' REAL,
           col ''dividend_yield'' REAL,
           col ''revenue_growth'' REAL,
           col ''profit_margin'' REAL,
           col ''beta'' REAL,
           col ''market_cap'' REAL,
           col ''sector'' TEXT,
           col ''raw_data'' TEXT,
           col_def ''created_at'' TEXT DefaultNow ],
       foreign_keys = [],
       unique_constraints = [] \<rparr>"

definition idx :: "string \<Rightarrow> string \<Rightarrow> string \<Rightarrow> statement" where
  "idx n t c = CreateIndex \<lparr> index_name = n, index_table = t, index_column = c \<rparr>"

definition SCHEMA_SQL :: "statement list" where
  "SCHEMA_SQL =
     [ CreateTable portfolios,
       CreateTable holdings,
       CreateTable transactions,
       CreateTable snapshots,
       CreateTable stock_scores,
       idx ''idx_holdings_portfolio'' ''holdings'' ''portfolio_id'',
       idx ''idx_holdings_ticker'' ''holdings'' ''ticker'',
       idx ''idx_transactions_portfolio'' ''transactions'' ''portfolio_id'',
       idx ''idx_transactions_date'' ''transactions'' ''executed_at'',
       idx ''idx_snapshots_portfolio'' ''snapshots'' ''portfolio_id'',
       idx ''idx_snapshots_date'' ''snapshots'' ''snapshot_date'',
       idx ''idx_scores_ticker'' ''stock_scores'' ''ticker'',
       idx ''idx_scores_date'' ''stock_scores'' ''score_date'' ]"

text \<open>Reading the schema: its tables, a table by name, a column by name.\<close>

fun tables_of :: "statement list \<Rightarrow> table list" where
  "tables_of [] = []"
| "tables_of (CreateTable t # ss) = t # tables_of ss"
| "tables_of (CreateIndex i # ss) = tables_of ss"

definition find_table :: "string \<Rightarrow> table option" where
  "find_table n = find (\<lambda>t. table_name t = n) (tables_of SCHEMA_SQL)"

definition find_columns :: "string \<Rightarrow> string \<Rightarrow> column list" where
  "find_columns tn cn =
     (case find_table tn of
        None \<Rightarrow> []
      | Some t \<Rightarrow> filter (\<lambda>c. col_name c = cn) (columns t))"

definition default_in_unit_interval :: "column \<Rightarrow> bool" where
  "default_in_unit_interval c =
     (case default_value c of
        Some (DefaultReal d) \<Rightarrow> 0 \<le> d \<and> d \<le> 1
      | _ \<Rightarrow> False)"

section \<open>Reference formula and concrete inputs\<close>


text \<open>A horizon that lets \<^verbatim>\<open>calculateDCF\<close> read its last projected year: a whole number
  of at least one year.\<close>

definition whole_positive :: "real \<Rightarrow> bool" where
  "whole_positive x \<longleftrightarrow> 1 \<le> x \<and> x = of_int \<lfloor>x\<rfloor>"



text \<open>The scenario of the specification: a mega-cap with net cash and 8% revenue growth.\<close>

definition scenario_inputs :: DCFInputs where
  "scenario_inputs =
     \<lparr> freeCashFlow = 10000000000, totalDebt = 20000000000, cash = 30000000000,
       sharesOutstanding = 5000000000, marketCap = 250000000000,
       revenueGrowth = Some 8, discountRate = None, terminalGrowthRate = None,
       projectionYears = None \<rparr>"

text \<open>
  The reference value written out by hand for that scenario, following the
  specification: growth \<open>min(8,25) * 0.7 + 3 * 0.3 = 6.5\<close> percent, five years discounted
  at 9 percent, Gordon terminal value at 3 percent, net debt of \<open>20e9 - 30e9\<close>, and
  \<open>5e9\<close> shares.
\<close>

definition hand_reference_spec :: real where
  "hand_reference_spec =
     (10000000000 * 1.065 / 1.09
      + 10000000000 * 1.065 ^ 2 / 1.09 ^ 2
      + 10000000000 * 1.065 ^ 3 / 1.09 ^ 3
      + 10000000000 * 1.065 ^ 4 / 1.09 ^ 4
      + 10000000000 * 1.065 ^ 5 / 1.09 ^ 5
      + (10000000000 * 1.065 ^ 5 * 1.03 / (0.09 - 0.03)) / 1.09 ^ 5
      - (20000000000 - 30000000000)) / 5000000000"

text \<open>The same company valued with a discount rate override of 2 percent, below the
  default terminal growth of 3 percent.\<close>

definition low_discount_inputs :: DCFInputs where
  "low_discount_inputs = scenario_inputs \<lparr> discountRate := Some 2 \<rparr>"

text \<open>The same company with the discount rate overridden to the terminal growth rate.\<close>

definition equal_rates_inputs :: DCFInputs where
  "equal_rates_inputs = scenario_inputs \<lparr> discountRate := Some 3 \<rparr>"

text \<open>The same company with a horizon of -1 years, and with one of two and a half.\<close>

definition negative_horizon_inputs :: DCFInputs where
  "negative_horizon_inputs = scenario_inputs \<lparr> projectionYears := Some (- 1) \<rparr>"

definition fractional_horizon_inputs :: DCFInputs where
  "fractional_horizon_inputs = scenario_inputs \<lparr> projectionYears := Some 2.5 \<rparr>"

text \<open>The same company with a terminal growth override of 8 percent, below its default
  discount rate of 9 percent.\<close>

definition high_terminal_inputs :: DCFInputs where
  "high_terminal_inputs = scenario_inputs \<lparr> terminalGrowthRate := Some 8 \<rparr>"

text \<open>The same company with a free cash flow of \<open>10^308\<close>, near the largest double.\<close>

definition huge_cash_flow_inputs :: DCFInputs where
  "huge_cash_flow_inputs = scenario_inputs \<lparr> freeCashFlow := 10 ^ 308 \<rparr>"

text \<open>Two roundings to try \<^verbatim>\<open>assessValuation\<close> with: none at all, and a coarse one, to
  three decimals, under which a result can move across a threshold.\<close>

definition exact :: "real \<Rightarrow> real" where
  "exact x = x"

definition round3 :: "real \<Rightarrow> real" where
  "round3 x = of_int \<lfloor>x * 1000 + 1 / 2\<rfloor> / 1000"

subsection \<open>Concrete runs of the rate limiter\<close>

text \<open>
  A limiter that has issued no request yet (\<^verbatim>\<open>lastRequestTime = 0\<close>), at a clock value
  of the kind \<^verbatim>\<open>Date.now()\<close> returns.
\<close>

definition fresh_world :: world where
  "fresh_world = \<lparr> now = 1700000000000, lastRequestTime = 0, requestCount = 0,
                    errorCount = 0, journal = [] \<rparr>"

definition not_found_fetch :: "string \<Rightarrow> string request" where
  "not_found_fetch ticker n = (0, Inl (ThrownError (Error ''Not Found'')))"






definition stop_on_error :: "string BatchOptions" where
  "stop_on_error = \<lparr> onProgress = None, onError = None, continueOnError = Some False \<rparr>"

definition default_options :: "string BatchOptions" where
  "default_options = \<lparr> onProgress = None, onError = None, continueOnError = None \<rparr>"


section \<open>Properties of the DCF calculator\<close>

subsection \<open>Helper lemmas\<close>

lemma MAX_VALUE_pos: "0 < MAX_VALUE"
  by (simp add: MAX_VALUE_def)


lemma num_in_range: "- MAX_VALUE \<le> x \<Longrightarrow> x \<le> MAX_VALUE \<Longrightarrow> num x = Fin x"
  by (auto simp: num_def)

lemma num_small: "\<bar>x\<bar> \<le> 1000000000000000000000000000000 \<Longrightarrow> num x = Fin x"
proof -
  have "(1000000000000000000000000000000::real) \<le> MAX_VALUE" by (simp add: MAX_VALUE_def)
  then show "\<bar>x\<bar> \<le> 1000000000000000000000000000000 \<Longrightarrow> num x = Fin x"
    by (auto simp: num_def)
qed

lemma num_pos: "0 < x \<Longrightarrow> num x = Fin x \<or> num x = PosInf"
  using MAX_VALUE_pos by (auto simp: num_def)

lemma num_neg: "x < 0 \<Longrightarrow> num x = Fin x \<or> num x = NegInf"
  using MAX_VALUE_pos by (auto simp: num_def)










lemma Math_pow_nat: "Math_pow x (real n) = num (x ^ n)"
proof (cases "n = 0")
  case True
  have "(1::real) \<le> MAX_VALUE" by (simp add: MAX_VALUE_def)
  then show ?thesis using True by (simp add: Math_pow_def num_def)
next
  case False
  then show ?thesis by (simp add: Math_pow_def)
qed

lemma Math_pow_numeral: "Math_pow x (numeral k) = num (x ^ numeral k)"
  using Math_pow_nat[of x "numeral k"] by simp

lemma Math_pow_one: "Math_pow x 1 = num x"
  using Math_pow_nat[of x 1] by simp

lemma whole_positive_iff: "whole_positive p \<longleftrightarrow> (\<exists>n>0. p = real n)"
proof
  assume w: "whole_positive p"
  then have "p = real (nat \<lfloor>p\<rfloor>)" "0 < nat \<lfloor>p\<rfloor>"
    by (auto simp: whole_positive_def)
  then show "\<exists>n>0. p = real n" by blast
next
  assume "\<exists>n>0. p = real n"
  then show "whole_positive p" by (auto simp: whole_positive_def)
qed

lemma array_read_years:
  "0 < n \<Longrightarrow> array_read (map f [1..<Suc n]) (real n - 1) = Some (f n)"
proof -
  assume "0 < n"
  then obtain m where m: "n = Suc m" by (cases n) auto
  have "map f [1..<Suc (Suc m)] ! m = f (Suc m)"
    using nth_map_upt[of m "Suc (Suc m)" 1 f] by simp
  then show ?thesis
    unfolding m by (simp add: array_read_def del: upt_Suc)
qed

lemma array_read_horizon:
  "0 < n \<Longrightarrow> array_read (map f [1..<Suc (nat \<lfloor>real n\<rfloor>)]) (real n - 1) = Some (f n)"
  using array_read_years[of n f] by simp

lemma array_read_not_whole:
  "\<not> whole_positive p \<Longrightarrow> array_read (map f [1..<Suc (nat \<lfloor>p\<rfloor>)]) (p - 1) = None"
proof -
  assume nw: "\<not> whole_positive p"
  show ?thesis
  proof (cases "0 \<le> p - 1 \<and> p - 1 = of_int \<lfloor>p - 1\<rfloor>")
    case True
    then have "1 \<le> p" "p = of_int \<lfloor>p\<rfloor>" by (auto simp: algebra_simps) 
    with nw show ?thesis by (simp add: whole_positive_def)
  next
    case False
    then show ?thesis by (auto simp: array_read_def)
  qed
qed

lemma calculateDCF_fails:
  assumes "\<not> whole_positive (or_default (projectionYears inp) 5)"
  shows "calculateDCF inp = Inl TypeError"
  unfolding calculateDCF_def Let_def array_read_not_whole[OF assms] by simp

lemma calculateDCF_returns:
  assumes "whole_positive (or_default (projectionYears inp) 5)"
  shows "\<exists>out. calculateDCF inp = Inr out"
proof -
  from assms obtain n where n: "0 < n" "or_default (projectionYears inp) 5 = real n"
    by (auto simp: whole_positive_iff)
  show ?thesis
    unfolding calculateDCF_def Let_def n(2) array_read_horizon[OF n(1)] by simp
qed

lemma calculateDCF_whole:
  assumes "calculateDCF inp = Inr out"
  shows "whole_positive (or_default (projectionYears inp) 5)"
  using assms calculateDCF_fails[of inp] by auto

lemma calculateDCF_assumptions:
  assumes "calculateDCF inp = Inr out"
  shows "asm_discountRate (assumptions out) = calculateWACC (marketCap inp) (discountRate inp)"
    and "asm_terminalGrowthRate (assumptions out) = or_default (terminalGrowthRate inp) 3"
    and "asm_projectionYears (assumptions out) = or_default (projectionYears inp) 5"
    and "fcfGrowthRate (assumptions out) =
           estimateFCFGrowthRate (revenueGrowth inp) (or_default (terminalGrowthRate inp) 3)"
    and "initialFCF (assumptions out) = freeCashFlow inp"
  using assms by (auto simp: calculateDCF_def Let_def split: option.splits)

lemma calculateDCF_sensitivity:
  assumes "calculateDCF inp = Inr out"
  shows "sensitivity out =
           calculateSensitivity inp (asm_discountRate (assumptions out))
             (fcfGrowthRate (assumptions out)) (asm_terminalGrowthRate (assumptions out))
             (asm_projectionYears (assumptions out))
             (jsub (Fin (totalDebt inp)) (Fin (cash inp)))"
  using assms by (auto simp: calculateDCF_def Let_def split: option.splits)


text \<open>The main result and the base scenario come from the same formula.\<close>

lemma calculateDCF_intrinsic:
  assumes "calculateDCF inp = Inr out"
  shows "intrinsicValue out =
         calcIntrinsicValue inp (asm_projectionYears (assumptions out))
           (jsub (Fin (totalDebt inp)) (Fin (cash inp))) (asm_discountRate (assumptions out))
           (fcfGrowthRate (assumptions out)) (asm_terminalGrowthRate (assumptions out))"
proof -
  from calculateDCF_whole[OF assms]
  obtain n where n: "0 < n" "or_default (projectionYears inp) 5 = real n"
    by (auto simp: whole_positive_iff)
  show ?thesis
    using assms
    unfolding calculateDCF_def Let_def n(2) array_read_horizon[OF n(1)]
    by (auto simp: calcIntrinsicValue_def Let_def n(2) fold_map comp_def simp del: upt_Suc)
qed

lemma years_1_to_5: "[Suc 0..<6] = [1, 2, 3, 4, 5]"
  by (simp add: upt_rec)

lemmas num_eval = Math_pow_numeral Math_pow_one jsub_def num_small power_divide

lemma scenario_value:
  "calcIntrinsicValue scenario_inputs 5 (Fin (- 10000000000)) 9 6.5 3
     = Fin (189288124051 / 4517061152)"
  by (simp add: calcIntrinsicValue_def scenario_inputs_def Let_def years_1_to_5 num_eval
        del: upt_Suc)














lemma concrete_horizons:
  "whole_positive (or_default (projectionYears scenario_inputs) 5)"
  "whole_positive (or_default (projectionYears low_discount_inputs) 5)"
  "whole_positive (or_default (projectionYears equal_rates_inputs) 5)"
  "whole_positive (or_default (projectionYears high_terminal_inputs) 5)"
  "whole_positive (or_default (projectionYears huge_cash_flow_inputs) 5)"
  "\<not> whole_positive (or_default (projectionYears negative_horizon_inputs) 5)"
  "\<not> whole_positive (or_default (projectionYears fractional_horizon_inputs) 5)"
  by (simp_all add: scenario_inputs_def low_discount_inputs_def equal_rates_inputs_def
        high_terminal_inputs_def huge_cash_flow_inputs_def negative_horizon_inputs_def
        fractional_horizon_inputs_def or_default_def whole_positive_def)

lemma calculateDCF_projr:
  assumes "whole_positive (or_default (projectionYears inp) 5)"
  shows "calculateDCF inp = Inr (projr (calculateDCF inp))"
  using calculateDCF_returns[OF assms] by auto

lemmas inputs_eval =
  scenario_inputs_def low_discount_inputs_def equal_rates_inputs_def high_terminal_inputs_def
  huge_cash_flow_inputs_def or_default_def calculateWACC_def estimateFCFGrowthRate_def

lemmas value_eval =
  calcIntrinsicValue_def Let_def years_1_to_5 num_eval

subsection \<open>Claims about the DCF calculator\<close>





text \<open>
  The doubles end at \<^verbatim>\<open>Number.MAX_VALUE\<close>: with a free cash flow of \<open>10^308\<close> the sum of
  the discounted cash flows overflows in every scenario, and all three values are
  \<^verbatim>\<open>Infinity\<close>.
\<close>

lemma huge_cash_flow_overflows:
  "map sc_intrinsicValue (sensitivity (projr (calculateDCF huge_cash_flow_inputs)))
     = [PosInf, PosInf, PosInf]"
proof -
  define out where "out = projr (calculateDCF huge_cash_flow_inputs)"
  have r: "calculateDCF huge_cash_flow_inputs = Inr out"
    unfolding out_def by (rule calculateDCF_projr[OF concrete_horizons(5)])
  have a: "asm_discountRate (assumptions out) = 9" "asm_terminalGrowthRate (assumptions out) = 3"
    "asm_projectionYears (assumptions out) = 5" "fcfGrowthRate (assumptions out) = 6.5"
    using calculateDCF_assumptions(1-4)[OF r] by (simp_all add: inputs_eval)
  have nd: "jsub (Fin (totalDebt huge_cash_flow_inputs)) (Fin (cash huge_cash_flow_inputs))
              = Fin (- 10000000000)"
    by (simp add: inputs_eval num_eval)
  have v: "calcIntrinsicValue huge_cash_flow_inputs 5 (Fin (- 10000000000)) 11 4.5 2 = PosInf"
    "calcIntrinsicValue huge_cash_flow_inputs 5 (Fin (- 10000000000)) 9 6.5 3 = PosInf"
    "calcIntrinsicValue huge_cash_flow_inputs 5 (Fin (- 10000000000)) 7 8.5 4 = PosInf"
    by (simp_all add: calcIntrinsicValue_def Let_def years_1_to_5 Math_pow_numeral Math_pow_one
          jsub_def power_divide num_def MAX_VALUE_def inputs_eval del: upt_Suc)
  show ?thesis
    unfolding out_def[symmetric] calculateDCF_sensitivity[OF r] a nd using v
    by (simp add: calculateSensitivity_def)
qed



text \<open>
  Claim C6: without an override the discount rate is looked up by market-cap tier
  (above 200e9: 9; above 50e9: 10; above 10e9: 11; above 2e9: 12.5; otherwise 14), the
  lookup never increases with the market cap, and an override is used unchanged, also
  in the assumptions that \<^verbatim>\<open>calculateDCF\<close> reports.
\<close>

theorem C6_default_wacc:
  assumes "200000000000 < m1"
    and "50000000000 < m2" "m2 \<le> 200000000000"
    and "10000000000 < m3" "m3 \<le> 50000000000"
    and "2000000000 < m4" "m4 \<le> 10000000000"
    and "m5 \<le> 2000000000"
    and "lo \<le> hi"
    and "calculateDCF inp = Inr out"
  shows "calculateWACC m1 None = 9
    \<and> calculateWACC m2 None = 10
    \<and> calculateWACC m3 None = 11
    \<and> calculateWACC m4 None = 12.5
    \<and> calculateWACC m5 None = 14
    \<and> calculateWACC hi None \<le> calculateWACC lo None
    \<and> calculateWACC m (Some c) = c
    \<and> asm_discountRate (assumptions out) =
           (case discountRate inp of
              Some c \<Rightarrow> c
            | None \<Rightarrow> calculateWACC (marketCap inp) None)"
  using assms(1-9) calculateDCF_assumptions(1)[OF assms(10)]
  by (auto simp: calculateWACC_def split: option.splits)

theorem C6_default_wacc_witness:
  "calculateWACC 250000000000 None = 9
   \<and> calculateWACC 100000000000 None = 10
   \<and> calculateWACC 20000000000 None = 11
   \<and> calculateWACC 5000000000 None = 12.5
   \<and> calculateWACC 1000000000 None = 14
   \<and> calculateWACC 250000000000 None \<le> calculateWACC 1000000000 None
   \<and> calculateWACC 1000000000 (Some 7.5) = 7.5
   \<and> asm_discountRate (assumptions (projr (calculateDCF low_discount_inputs))) = 2"
proof -
  have r: "calculateDCF low_discount_inputs = Inr (projr (calculateDCF low_discount_inputs))"
    by (rule calculateDCF_projr[OF concrete_horizons(2)])
  show ?thesis
    using C6_default_wacc[where ?m1.0 = 250000000000 and ?m2.0 = 100000000000
        and ?m3.0 = 20000000000 and ?m4.0 = 5000000000 and ?m5.0 = 1000000000
        and lo = 1000000000 and hi = 250000000000 and inp = low_discount_inputs
        and out = "projr (calculateDCF low_discount_inputs)"
        and m = 1000000000 and c = "7.5", OF _ _ _ _ _ _ _ _ _ r]
    by (simp add: low_discount_inputs_def scenario_inputs_def)
qed

text \<open>
  Claim C7: the default FCF growth rate is \<open>min(revenueGrowth, 25) * 0.7 +
  terminalGrowth * 0.3\<close> for a revenue growth that is present and not negative, the
  midpoint of the terminal growth rate and the constant 8 when it is absent, and the
  terminal growth rate itself when it is negative; \<^verbatim>\<open>calculateDCF\<close> uses it with the
  terminal growth rate it reports.
\<close>

theorem C7_fcf_growth_default:
  assumes "0 \<le> rg" and "rn < 0" and "calculateDCF inp = Inr out"
  shows "estimateFCFGrowthRate (Some rg) tg = min rg 25 * 0.7 + tg * 0.3
    \<and> estimateFCFGrowthRate None tg = (tg + 8) / 2
    \<and> estimateFCFGrowthRate (Some rn) tg = tg
    \<and> fcfGrowthRate (assumptions out) =
           estimateFCFGrowthRate (revenueGrowth inp) (asm_terminalGrowthRate (assumptions out))"
  using assms(1,2) calculateDCF_assumptions(2,4)[OF assms(3)]
  by (auto simp: estimateFCFGrowthRate_def Let_def min_def)

theorem C7_fcf_growth_default_witness:
  "estimateFCFGrowthRate (Some 40) 3 = min 40 25 * 0.7 + 3 * 0.3
   \<and> estimateFCFGrowthRate None 3 = (3 + 8) / 2
   \<and> estimateFCFGrowthRate (Some (- 5)) 3 = 3
   \<and> fcfGrowthRate (assumptions (projr (calculateDCF scenario_inputs))) = 6.5"
proof -
  have r: "calculateDCF scenario_inputs = Inr (projr (calculateDCF scenario_inputs))"
    by (rule calculateDCF_projr[OF concrete_horizons(1)])
  have a: "asm_terminalGrowthRate (assumptions (projr (calculateDCF scenario_inputs))) = 3"
    using calculateDCF_assumptions(2)[OF r] by (simp add: scenario_inputs_def or_default_def)
  have e: "estimateFCFGrowthRate (revenueGrowth scenario_inputs) 3 = 6.5"
    by (simp add: scenario_inputs_def estimateFCFGrowthRate_def)
  show ?thesis
    using C7_fcf_growth_default[where rg = 40 and rn = "- 5" and inp = scenario_inputs
        and out = "projr (calculateDCF scenario_inputs)" and tg = 3, OF _ _ r]
    by (simp add: a e)
qed

text \<open>
  Claim C8: for the scenario of the specification (mega-cap, hence 9 percent, terminal
  growth 3 percent, five years, growth 6.5 percent) the intrinsic value per share that
  \<^verbatim>\<open>calculateDCF\<close> returns, which is also that of the base scenario, lies within 0.01 of
  the reference value computed by hand; it is about 41.905.
\<close>

theorem C8_scenario_value:
  "\<exists>out v. calculateDCF scenario_inputs = Inr out
     \<and> asm_discountRate (assumptions out) = 9
     \<and> asm_terminalGrowthRate (assumptions out) = 3
     \<and> asm_projectionYears (assumptions out) = 5
     \<and> fcfGrowthRate (assumptions out) = 6.5
     \<and> intrinsicValue out = Fin v
     \<and> sc_intrinsicValue (sensitivity out ! 1) = Fin v
     \<and> v = hand_reference_spec
     \<and> \<bar>v - hand_reference_spec\<bar> \<le> 0.01
     \<and> \<bar>v - 41.905\<bar> \<le> 0.001"
proof -
  from calculateDCF_returns[OF concrete_horizons(1)]
  obtain out where out: "calculateDCF scenario_inputs = Inr out" ..
  have a: "asm_discountRate (assumptions out) = 9" "asm_terminalGrowthRate (assumptions out) = 3"
     "asm_projectionYears (assumptions out) = 5" "fcfGrowthRate (assumptions out) = 6.5"
    using calculateDCF_assumptions(1-4)[OF out] by (simp_all add: inputs_eval)
  have nd: "jsub (Fin (totalDebt scenario_inputs)) (Fin (cash scenario_inputs))
              = Fin (- 10000000000)"
    by (simp add: inputs_eval num_eval)
  have c: "calcIntrinsicValue scenario_inputs 5 (Fin (- 10000000000)) 9 6.5 3
             = Fin (189288124051 / 4517061152)"
    by (simp add: value_eval inputs_eval del: upt_Suc)
  have v: "intrinsicValue out = Fin (189288124051 / 4517061152)"
    unfolding calculateDCF_intrinsic[OF out] a nd using c by simp
  have b: "sc_intrinsicValue (sensitivity out ! 1) = Fin (189288124051 / 4517061152)"
    unfolding calculateDCF_sensitivity[OF out] a nd using c
    by (simp add: calculateSensitivity_def)
  have h: "hand_reference_spec = 189288124051 / 4517061152"
    by (simp add: hand_reference_spec_def power_divide)
  show ?thesis
    using out v b h a by simp
qed

text \<open>
  Claim C10: \<^verbatim>\<open>assessValuation\<close> returns the price it was given and, as the upside, the
  double that \<open>(intrinsicValue - currentPrice) / currentPrice * 100\<close> evaluates to, which
  for finite arguments, a positive price and no rounding is that number itself. It
  always returns one recommendation, by the range of the upside it returns: at least
  30, Strong Buy; from 15 up to 30, Buy; from -15 up to 15, Hold; from -30 up to -15,
  Sell; below -30, Strong Sell. This holds for every intrinsic value, for
  \<^verbatim>\<open>calculateDCF\<close> can return one that is not finite: an infinite upside is above or
  below every threshold, and an upside that is \<^verbatim>\<open>NaN\<close>, as for an intrinsic value that
  is \<^verbatim>\<open>NaN\<close>, lies in no range and gets the last recommendation, Strong Sell.
\<close>

theorem C10_assessValuation:
  "currentPrice (assessValuation rnd iv price) = price
   \<and> upside (assessValuation rnd iv price)
       = jround rnd (jmul (jround rnd (jdiv (jround rnd (jsub iv price)) price)) (Fin 100))
   \<and> (\<forall>x p. iv = Fin x \<and> price = Fin p \<and> 0 < p
          \<and> \<bar>x - p\<bar> \<le> MAX_VALUE \<and> \<bar>(x - p) / p * 100\<bar> \<le> MAX_VALUE
        \<longrightarrow> upside (assessValuation exact iv price) = Fin ((x - p) / p * 100))
   \<and> (\<forall>u. upside (assessValuation rnd iv price) = Fin u \<longrightarrow>
          (recommendation (assessValuation rnd iv price) = StrongBuy \<longleftrightarrow> 30 \<le> u)
        \<and> (recommendation (assessValuation rnd iv price) = Buy \<longleftrightarrow> 15 \<le> u \<and> u < 30)
        \<and> (recommendation (assessValuation rnd iv price) = Hold \<longleftrightarrow> - 15 \<le> u \<and> u < 15)
        \<and> (recommendation (assessValuation rnd iv price) = Sell \<longleftrightarrow> - 30 \<le> u \<and> u < - 15)
        \<and> (recommendation (assessValuation rnd iv price) = StrongSell \<longleftrightarrow> u < - 30))
   \<and> (upside (assessValuation rnd iv price) = PosInf
        \<longrightarrow> recommendation (assessValuation rnd iv price) = StrongBuy)
   \<and> (upside (assessValuation rnd iv price) = NegInf
        \<longrightarrow> recommendation (assessValuation rnd iv price) = StrongSell)
   \<and> (upside (assessValuation rnd iv price) = NaN
        \<longrightarrow> recommendation (assessValuation rnd iv price) = StrongSell)
   \<and> (iv = NaN \<longrightarrow> upside (assessValuation rnd iv price) = NaN)
   \<and> (\<forall>p. iv = PosInf \<and> price = Fin p \<and> 0 < p
        \<longrightarrow> upside (assessValuation rnd iv price) = PosInf)
   \<and> (\<forall>p. iv = NegInf \<and> price = Fin p \<and> 0 < p
        \<longrightarrow> upside (assessValuation rnd iv price) = NegInf)"
proof (intro conjI allI impI)
  show "currentPrice (assessValuation rnd iv price) = price"
    by (simp add: assessValuation_def Let_def)
  show "upside (assessValuation rnd iv price)
       = jround rnd (jmul (jround rnd (jdiv (jround rnd (jsub iv price)) price)) (Fin 100))"
    by (simp add: assessValuation_def Let_def)
next
  fix x p
  assume h: "iv = Fin x \<and> price = Fin p \<and> 0 < p
          \<and> \<bar>x - p\<bar> \<le> MAX_VALUE \<and> \<bar>(x - p) / p * 100\<bar> \<le> MAX_VALUE"
  define q where "q = (x - p) / p"
  have hq: "\<bar>q * 100\<bar> \<le> MAX_VALUE" using h unfolding q_def by blast
  have "\<bar>q\<bar> \<le> \<bar>q * 100\<bar>" by (simp add: abs_mult)
  then have q: "\<bar>q\<bar> \<le> MAX_VALUE" using hq by linarith
  have 1: "num (x - p) = Fin (x - p)" using h by (intro num_in_range) auto
  have 2: "num q = Fin q" using q by (intro num_in_range) auto
  have 3: "num (q * 100) = Fin (q * 100)" using hq by (intro num_in_range) auto
  have "upside (assessValuation exact iv price) = Fin (q * 100)"
    using h 1 2[unfolded q_def] 3[unfolded q_def]
    by (simp add: assessValuation_def Let_def exact_def jsub_def q_def)
  then show "upside (assessValuation exact iv price) = Fin ((x - p) / p * 100)"
    by (simp add: q_def)
next
  fix u
  assume "upside (assessValuation rnd iv price) = Fin u"
  then show "recommendation (assessValuation rnd iv price) = StrongBuy \<longleftrightarrow> 30 \<le> u"
    "recommendation (assessValuation rnd iv price) = Buy \<longleftrightarrow> 15 \<le> u \<and> u < 30"
    "recommendation (assessValuation rnd iv price) = Hold \<longleftrightarrow> - 15 \<le> u \<and> u < 15"
    "recommendation (assessValuation rnd iv price) = Sell \<longleftrightarrow> - 30 \<le> u \<and> u < - 15"
    "recommendation (assessValuation rnd iv price) = StrongSell \<longleftrightarrow> u < - 30"
    by (auto simp: assessValuation_def Let_def)
next
  assume "upside (assessValuation rnd iv price) = PosInf"
  then show "recommendation (assessValuation rnd iv price) = StrongBuy"
    by (simp add: assessValuation_def Let_def)
next
  assume "upside (assessValuation rnd iv price) = NegInf"
  then show "recommendation (assessValuation rnd iv price) = StrongSell"
    by (simp add: assessValuation_def Let_def)
next
  assume "upside (assessValuation rnd iv price) = NaN"
  then show "recommendation (assessValuation rnd iv price) = StrongSell"
    by (simp add: assessValuation_def Let_def)
next
  assume "iv = NaN"
  then show "upside (assessValuation rnd iv price) = NaN"
    by (simp add: assessValuation_def Let_def jsub_def)
next
  fix p assume "iv = PosInf \<and> price = Fin p \<and> 0 < p"
  then show "upside (assessValuation rnd iv price) = PosInf"
    by (simp add: assessValuation_def Let_def jsub_def)
next
  fix p assume "iv = NegInf \<and> price = Fin p \<and> 0 < p"
  then show "upside (assessValuation rnd iv price) = NegInf"
    by (simp add: assessValuation_def Let_def jsub_def)
qed

theorem C10_assessValuation_witness:
  "upside (assessValuation exact (Fin 130) (Fin 100)) = Fin 30
   \<and> recommendation (assessValuation exact (Fin 130) (Fin 100)) = StrongBuy
   \<and> recommendation (assessValuation exact (Fin 115) (Fin 100)) = Buy
   \<and> recommendation (assessValuation exact (Fin 85) (Fin 100)) = Hold
   \<and> recommendation (assessValuation exact (Fin 70) (Fin 100)) = Sell
   \<and> recommendation (assessValuation exact (Fin 69) (Fin 100)) = StrongSell
   \<and> upside (assessValuation exact (Fin 114.9996) (Fin 100)) = Fin 14.9996
   \<and> recommendation (assessValuation exact (Fin 114.9996) (Fin 100)) = Hold
   \<and> upside (assessValuation round3 (Fin 114.9996) (Fin 100)) = Fin 15
   \<and> recommendation (assessValuation round3 (Fin 114.9996) (Fin 100)) = Buy
   \<and> upside (assessValuation exact NaN (Fin 100)) = NaN
   \<and> recommendation (assessValuation exact NaN (Fin 100)) = StrongSell
   \<and> upside (assessValuation exact PosInf (Fin 100)) = PosInf
   \<and> recommendation (assessValuation exact PosInf (Fin 100)) = StrongBuy"
proof -
  have big: "(1000000000000000000000000000000::real) \<le> MAX_VALUE"
    by (simp add: MAX_VALUE_def)
  have up: "upside (assessValuation exact (Fin x) (Fin 100)) = Fin ((x - 100) / 100 * 100)"
    if "\<bar>x - 100\<bar> \<le> 1000" for x
  proof -
    have "\<bar>x - 100\<bar> \<le> MAX_VALUE \<and> \<bar>(x - 100) / 100 * 100\<bar> \<le> MAX_VALUE"
      using that big by simp
    with C10_assessValuation[of exact "Fin x" "Fin 100", THEN conjunct2, THEN conjunct2,
        THEN conjunct1, THEN spec, THEN spec, of x 100]
    show ?thesis by simp
  qed
  have rec: "recommendation (assessValuation rnd iv price) =
               (if 30 \<le> u then StrongBuy else if 15 \<le> u then Buy else if - 15 \<le> u then Hold
                else if - 30 \<le> u then Sell else StrongSell)"
    if "upside (assessValuation rnd iv price) = Fin u" for rnd iv price u
    using C10_assessValuation[of rnd iv price, THEN conjunct2, THEN conjunct2, THEN conjunct2,
        THEN conjunct1, THEN spec, THEN mp, OF that]
    by (cases "recommendation (assessValuation rnd iv price)") auto
  have r3: "upside (assessValuation round3 (Fin 114.9996) (Fin 100)) = Fin 15"
    using C10_assessValuation[of round3 "Fin 114.9996" "Fin 100", THEN conjunct2, THEN conjunct1]
    by (simp add: jsub_def round3_def num_small)
  have nan: "upside (assessValuation exact NaN (Fin 100)) = NaN"
    "recommendation (assessValuation exact NaN (Fin 100)) = StrongSell"
    using C10_assessValuation[of exact NaN "Fin 100"] by (simp_all add: jsub_def)
  have inf: "upside (assessValuation exact PosInf (Fin 100)) = PosInf"
    "recommendation (assessValuation exact PosInf (Fin 100)) = StrongBuy"
    using C10_assessValuation[of exact PosInf "Fin 100"] by (simp_all add: jsub_def)
  show ?thesis
    using up[of 130] up[of 115] up[of 85] up[of 70] up[of 69] up[of "114.9996"]
      rec[of exact "Fin 130" "Fin 100" 30] rec[of exact "Fin 115" "Fin 100" 15]
      rec[of exact "Fin 85" "Fin 100" "- 15"] rec[of exact "Fin 70" "Fin 100" "- 30"]
      rec[of exact "Fin 69" "Fin 100" "- 31"]
      rec[of exact "Fin 114.9996" "Fin 100" "14.9996"]
      rec[of round3 "Fin 114.9996" "Fin 100" 15] r3 nan inf
    by simp
qed

section \<open>Properties of the rate limiter\<close>

subsection \<open>Helper lemmas\<close>

lemma total_slept_append: "total_slept (xs @ ys) = total_slept xs + total_slept ys"
  by (induction xs rule: total_slept.induct) simp_all

lemma retry_trace_append: "retry_trace (xs @ ys) = retry_trace xs @ retry_trace ys"
  by (induction xs rule: retry_trace.induct) simp_all

lemma throttle_fields:
  "requestCount (throttle cfg w) = requestCount w"
  "errorCount (throttle cfg w) = errorCount w"
  "retry_trace (journal (throttle cfg w)) = retry_trace (journal w)"
  by (simp_all add: throttle_def sleep_def Let_def retry_trace_append)

lemma throttle_clock:
  "now (throttle cfg w) = max (now w) (lastRequestTime w + minDelayMs cfg)"
  "lastRequestTime (throttle cfg w) = max (now w) (lastRequestTime w + minDelayMs cfg)"
  "total_slept (journal (throttle cfg w)) - total_slept (journal w) = now (throttle cfg w) - now w"
  by (auto simp: throttle_def sleep_def Let_def total_slept_append)


lemma after_request_fields:
  "requestCount (after_request cfg fn w) = Suc (requestCount w)"
  "errorCount (after_request cfg fn w) = errorCount w"
  "lastRequestTime (after_request cfg fn w) = max (now w) (lastRequestTime w + minDelayMs cfg)"
  "now (after_request cfg fn w)
     = max (now w) (lastRequestTime w + minDelayMs cfg) + int (fst (fn (Suc (requestCount w))))"
  "retry_trace (journal (after_request cfg fn w))
     = retry_trace (journal w)
       @ [Request (Suc (requestCount w)) (max (now w) (lastRequestTime w + minDelayMs cfg))]"
  "total_slept (journal (after_request cfg fn w)) - total_slept (journal w)
     = max (now w) (lastRequestTime w + minDelayMs cfg) - now w"
  using throttle_clock[of cfg w]
  by (simp_all add: after_request_def Let_def throttle_fields retry_trace_append
        total_slept_append)

lemma execute_loop_done:
  "\<not> real attempt \<le> maxRetries cfg \<Longrightarrow>
   execute_loop cfg fn attempt (Some e) w = (Inl e, w)"
  by (subst execute_loop.simps) simp

lemma execute_loop_success:
  assumes "real attempt \<le> maxRetries cfg"
    and "snd (fn (Suc (requestCount w))) = Inr r"
  shows "execute_loop cfg fn attempt le w = (Inr r, after_request cfg fn w)"
  using assms
  by (subst execute_loop.simps) (simp add: Let_def after_request_def throttle_fields)

lemma execute_loop_last_failure:
  assumes "real attempt = maxRetries cfg"
    and "snd (fn (Suc (requestCount w))) = Inl x"
  shows "execute_loop cfg fn attempt le w =
           (Inl (toError x), (after_request cfg fn w)
              \<lparr> errorCount := errorCount w + 1 \<rparr>)"
proof -
  have d: "\<not> real (Suc attempt) \<le> maxRetries cfg" using assms(1) by simp
  show ?thesis
    using assms
    by (subst execute_loop.simps)
       (simp add: Let_def after_request_def throttle_fields execute_loop_done[OF d])
qed

lemma execute_loop_retry:
  assumes "real attempt < maxRetries cfg"
    and "snd (fn (Suc (requestCount w))) = Inl x"
  shows "execute_loop cfg fn attempt le w =
           execute_loop cfg fn (attempt + 1) (Some (toError x))
             (sleep Backoff (getBackoffDelay cfg attempt)
                (warn (retry_warning cfg attempt x)
                   ((after_request cfg fn w) \<lparr> errorCount := errorCount w + 1 \<rparr>)))"
  using assms
  by (subst execute_loop.simps)
     (simp add: Let_def after_request_def throttle_fields retry_warning_def)

lemma retry_world_fields:
  "requestCount (sleep Backoff d (warn (retry_warning cfg attempt x) w)) = requestCount w"
  "errorCount (sleep Backoff d (warn (retry_warning cfg attempt x) w)) = errorCount w"
  "lastRequestTime (sleep Backoff d (warn (retry_warning cfg attempt x) w)) = lastRequestTime w"
  "now (sleep Backoff d (warn (retry_warning cfg attempt x) w)) = now w + max d 0"
  "retry_trace (journal (sleep Backoff d (warn (retry_warning cfg attempt x) w)))
     = retry_trace (journal w) @ [Sleep Backoff d]"
  by (simp_all add: sleep_def warn_def retry_warning_def retry_trace_append)

text \<open>
  A run of the loop from attempt \<open>attempt\<close>, for any retry limit that allows that
  attempt: it issues \<open>k + 1\<close> requests, all but the last of which fail; the last attempt
  is allowed; and an error comes out only when the next attempt is not, and is then the
  error of the last request.
\<close>

lemma execute_loop_run:
  assumes "real attempt \<le> maxRetries cfg"
    and "execute_loop cfg fn attempt le w = (res, w')"
  shows "\<exists>k. requestCount w' = requestCount w + Suc k
           \<and> real (attempt + k) \<le> maxRetries cfg
           \<and> (\<forall>i. requestCount w < i \<and> i < requestCount w' \<longrightarrow> isl (snd (fn i)))
           \<and> (case res of
                 Inr r \<Rightarrow> snd (fn (requestCount w')) = Inr r
               | Inl e \<Rightarrow> maxRetries cfg < real (attempt + k + 1)
                           \<and> (\<exists>x. snd (fn (requestCount w')) = Inl x \<and> e = toError x))"
  using assms
proof (induction "nat (\<lfloor>maxRetries cfg\<rfloor> - int attempt)" arbitrary: attempt le w)
  case 0
  then have top: "\<not> real (attempt + 1) \<le> maxRetries cfg"
    by (simp add: le_floor_iff) linarith
  show ?case
  proof (cases "snd (fn (Suc (requestCount w)))")
    case (Inr r)
    with "0.prems" have "res = Inr r" "w' = after_request cfg fn w"
      by (simp_all add: execute_loop_success)
    then show ?thesis
      using Inr "0.prems"(1) by (intro exI[of _ 0]) (auto simp: after_request_fields)
  next
    case (Inl x)
    show ?thesis
    proof (cases "real attempt < maxRetries cfg")
      case True
      define w1 where "w1 = sleep Backoff (getBackoffDelay cfg attempt)
                (warn (retry_warning cfg attempt x)
                   ((after_request cfg fn w) \<lparr> errorCount := errorCount w + 1 \<rparr>))"
      have "execute_loop cfg fn attempt le w = (Inl (toError x), w1)"
        unfolding execute_loop_retry[where fn = fn and le = le, OF True Inl] w1_def[symmetric]
        by (rule execute_loop_done[OF top])
      with "0.prems"(2) have "res = Inl (toError x)" "w' = w1" by simp_all
      then show ?thesis
        using Inl "0.prems"(1) top
        by (intro exI[of _ 0]) (auto simp: w1_def retry_world_fields after_request_fields)
    next
      case False
      with "0.prems"(1) have "real attempt = maxRetries cfg" by simp
      from execute_loop_last_failure[where fn = fn and le = le, OF this Inl] "0.prems"(2)
      have "res = Inl (toError x)"
        "w' = (after_request cfg fn w) \<lparr> errorCount := errorCount w + 1 \<rparr>"
        by simp_all
      then show ?thesis
        using Inl "0.prems"(1) top
        by (intro exI[of _ 0]) (auto simp: after_request_fields)
    qed
  qed
next
  case (Suc n)
  then have more: "real (attempt + 1) \<le> maxRetries cfg"
    by (simp add: le_floor_iff) linarith
  then have less: "real attempt < maxRetries cfg" by simp
  show ?case
  proof (cases "snd (fn (Suc (requestCount w)))")
    case (Inr r)
    with Suc.prems have "res = Inr r" "w' = after_request cfg fn w"
      by (simp_all add: execute_loop_success)
    then show ?thesis
      using Inr Suc.prems(1) by (intro exI[of _ 0]) (auto simp: after_request_fields)
  next
    case (Inl x)
    define w1 where "w1 = sleep Backoff (getBackoffDelay cfg attempt)
                (warn (retry_warning cfg attempt x)
                   ((after_request cfg fn w) \<lparr> errorCount := errorCount w + 1 \<rparr>))"
    have run: "execute_loop cfg fn (attempt + 1) (Some (toError x)) w1 = (res, w')"
      using execute_loop_retry[where fn = fn and le = le, OF less Inl] Suc.prems(2)
      by (simp add: w1_def)
    have n: "n = nat (\<lfloor>maxRetries cfg\<rfloor> - int (attempt + 1))" using Suc.hyps(2) by simp
    from Suc.hyps(1)[OF n more run]
    obtain k where k: "requestCount w' = requestCount w1 + Suc k"
      "real (attempt + 1 + k) \<le> maxRetries cfg"
      "\<forall>i. requestCount w1 < i \<and> i < requestCount w' \<longrightarrow> isl (snd (fn i))"
      "case res of
         Inr r \<Rightarrow> snd (fn (requestCount w')) = Inr r
       | Inl e \<Rightarrow> maxRetries cfg < real (attempt + 1 + k + 1)
                   \<and> (\<exists>x. snd (fn (requestCount w')) = Inl x \<and> e = toError x)"
      by blast
    have w1: "requestCount w1 = Suc (requestCount w)"
      by (simp add: w1_def retry_world_fields after_request_fields)
    have failed: "isl (snd (fn i))" if "requestCount w < i" "i < requestCount w'" for i
    proof (cases "i = Suc (requestCount w)")
      case True
      then show ?thesis using Inl by simp
    next
      case False
      then have "requestCount w1 < i" using that(1) w1 by simp
      then show ?thesis using k(3) that(2) by simp
    qed
    show ?thesis
    proof (intro exI[of _ "Suc k"] conjI)
      show "requestCount w' = requestCount w + Suc (Suc k)" using k(1) w1 by simp
      show "real (attempt + Suc k) \<le> maxRetries cfg" using k(2) by simp
      show "\<forall>i. requestCount w < i \<and> i < requestCount w' \<longrightarrow> isl (snd (fn i))"
        using failed by blast
      show "case res of
              Inr r \<Rightarrow> snd (fn (requestCount w')) = Inr r
            | Inl e \<Rightarrow> maxRetries cfg < real (attempt + Suc k + 1)
                        \<and> (\<exists>x. snd (fn (requestCount w')) = Inl x \<and> e = toError x)"
        using k(4) by (simp split: sum.splits)
    qed
  qed
qed

lemma execute_no_attempt:
  "maxRetries cfg < 0 \<Longrightarrow>
   execute cfg f w = (Inl (Error ''Request failed after all retries''), w)"
  unfolding execute_def by (subst execute_loop.simps) simp

lemma execute_run_of:
  assumes "0 \<le> maxRetries cfg" and "execute cfg f w = (res, w')"
  shows "run_of cfg f (requestCount w) (requestCount w') res"
proof -
  from assms(1) have a: "real 0 \<le> maxRetries cfg" by simp
  from assms(2) have run: "execute_loop cfg f 0 None w = (res, w')" by (simp add: execute_def)
  from execute_loop_run[OF a run]
  obtain k where k: "requestCount w' = requestCount w + Suc k"
      "real (0 + k) \<le> maxRetries cfg"
      "\<forall>i. requestCount w < i \<and> i < requestCount w' \<longrightarrow> isl (snd (f i))"
      "case res of
         Inr r \<Rightarrow> snd (f (requestCount w')) = Inr r
       | Inl e \<Rightarrow> maxRetries cfg < real (0 + k + 1)
                   \<and> (\<exists>x. snd (f (requestCount w')) = Inl x \<and> e = toError x)"
    by blast
  show ?thesis
    unfolding run_of_def using k by (auto split: sum.splits)
qed


lemma process_item_continues:
  assumes "quiet opts" and "or_true (continueOnError opts)"
  shows "process_item cfg fn opts totalItems item (results, completed, w) =
           Inr (results(item \<mapsto> fst (execute cfg (fn item) w)), Suc completed,
                snd (execute cfg (fn item) w))"
  using assms
  by (cases "execute cfg (fn item) w")
     (auto simp: process_item_def quiet_def call_back_def Let_def
           split: sum.splits option.splits)

lemma schedule_of_append:
  "schedule_of cfg fn (xs @ ys) lo hi
     \<longleftrightarrow> (\<exists>mid. schedule_of cfg fn xs lo mid \<and> schedule_of cfg fn ys mid hi)"
  by (induction xs arbitrary: lo) auto

lemma record_runs_append:
  "record_runs (xs @ ys) results = record_runs ys (record_runs xs results)"
  by (simp add: record_runs_def)

lemma dom_record_runs: "dom (record_runs runs results) = dom results \<union> set (map fst runs)"
  by (induction runs arbitrary: results) (auto simp: record_runs_def)

text \<open>
  A batch whose callbacks are quiet and that continues on errors is one run of
  \<^verbatim>\<open>execute\<close> after the other.
\<close>

lemma process_batch_runs:
  assumes "quiet opts" and "or_true (continueOnError opts)" and "0 \<le> maxRetries cfg"
  shows "\<exists>runs w'.
           process_batch cfg fn opts totalItems batch (results, completed, w)
             = Inr (record_runs runs results, completed + length batch, w')
           \<and> map fst runs = batch
           \<and> schedule_of cfg fn runs (requestCount w) (requestCount w')"
proof (induction batch arbitrary: results completed w)
  case Nil
  have step: "process_batch cfg fn opts totalItems [] (results, completed, w)
          = Inr (record_runs [] results, completed + length ([] :: 'a list), w)
        \<and> map fst ([] :: ('a \<times> nat \<times> (Error + 'b)) list) = []
        \<and> schedule_of cfg fn [] (requestCount w) (requestCount w)"
    by (simp add: record_runs_def)
  show ?case
    apply (rule exI[of _ "[]"])
    apply (rule exI[of _ w])
    apply (rule step)
    done
next
  case (Cons item rest)
  obtain res w1 where e: "execute cfg (fn item) w = (res, w1)"
    by (cases "execute cfg (fn item) w")
  note run = execute_run_of[OF assms(3) e]
  from Cons.IH[of "results(item \<mapsto> res)" "Suc completed" w1]
  obtain runs w' where r:
    "process_batch cfg fn opts totalItems rest (results(item \<mapsto> res), Suc completed, w1)
       = Inr (record_runs runs (results(item \<mapsto> res)), Suc completed + length rest, w')"
    "map fst runs = rest" "schedule_of cfg fn runs (requestCount w1) (requestCount w')"
    by blast
  have step: "process_batch cfg fn opts totalItems (item # rest) (results, completed, w)
          = Inr (record_runs ((item, requestCount w1, res) # runs) results,
                 completed + length (item # rest), w')
        \<and> map fst ((item, requestCount w1, res) # runs) = item # rest
        \<and> schedule_of cfg fn ((item, requestCount w1, res) # runs) (requestCount w)
             (requestCount w')"
    using r run by (simp add: process_item_continues[OF assms(1,2)] e record_runs_def)
  show ?case
    apply (rule exI[of _ "(item, requestCount w1, res) # runs"])
    apply (rule exI[of _ w'])
    apply (rule step)
    done
qed

lemma process_batches_runs:
  assumes "quiet opts" and "or_true (continueOnError opts)" and "0 \<le> maxRetries cfg"
  shows "\<exists>runs completed' w'.
           process_batches cfg fn opts totalItems batches (results, completed, w)
             = Inr (record_runs runs results, completed', w')
           \<and> map fst runs = concat batches
           \<and> schedule_of cfg fn runs (requestCount w) (requestCount w')"
proof (induction batches arbitrary: results completed w)
  case Nil
  have step: "process_batches cfg fn opts totalItems [] (results, completed, w)
          = Inr (record_runs [] results, completed, w)
        \<and> map fst ([] :: ('a \<times> nat \<times> (Error + 'b)) list) = concat []
        \<and> schedule_of cfg fn [] (requestCount w) (requestCount w)"
    by (simp add: record_runs_def)
  show ?case
    apply (rule exI[of _ "[]"])
    apply (rule exI[of _ completed])
    apply (rule exI[of _ w])
    apply (rule step)
    done
next
  case (Cons batch rest)
  from process_batch_runs[OF assms, of fn totalItems batch results completed w]
  obtain runs1 w1 where b:
    "process_batch cfg fn opts totalItems batch (results, completed, w)
       = Inr (record_runs runs1 results, completed + length batch, w1)"
    "map fst runs1 = batch" "schedule_of cfg fn runs1 (requestCount w) (requestCount w1)"
    by blast
  define v1 where "v1 = (if rest \<noteq> [] then sleep InterBatch (interBatchDelayMs cfg) w1 else w1)"
  have v1: "requestCount v1 = requestCount w1" by (simp add: v1_def sleep_def)
  from Cons.IH[of "record_runs runs1 results" "completed + length batch" v1]
  obtain runs2 c2 w2 where r:
    "process_batches cfg fn opts totalItems rest
       (record_runs runs1 results, completed + length batch, v1)
       = Inr (record_runs runs2 (record_runs runs1 results), c2, w2)"
    "map fst runs2 = concat rest" "schedule_of cfg fn runs2 (requestCount v1) (requestCount w2)"
    by blast
  have step: "process_batches cfg fn opts totalItems (batch # rest) (results, completed, w)
          = Inr (record_runs (runs1 @ runs2) results, c2, w2)
        \<and> map fst (runs1 @ runs2) = concat (batch # rest)
        \<and> schedule_of cfg fn (runs1 @ runs2) (requestCount w) (requestCount w2)"
    using b r v1
    by (auto simp: record_runs_append schedule_of_append v1_def[symmetric]
          simp del: process_batch.simps)
  show ?case
    apply (rule exI[of _ "runs1 @ runs2"])
    apply (rule exI[of _ c2])
    apply (rule exI[of _ w2])
    apply (rule step)
    done
qed

text \<open>With a negative retry limit no request is made, and every entry is the stock
  error.\<close>

lemma process_batch_no_attempt:
  assumes "quiet opts" and "or_true (continueOnError opts)" and "maxRetries cfg < 0"
  shows "\<exists>results' w'.
           process_batch cfg fn opts totalItems batch (results, completed, w)
             = Inr (results', completed + length batch, w')
           \<and> requestCount w' = requestCount w
           \<and> (\<forall>item. results' item =
                 (if item \<in> set batch then Some (Inl (Error ''Request failed after all retries''))
                  else results item))"
proof (induction batch arbitrary: results completed w)
  case Nil
  then show ?case by simp
next
  case (Cons item rest)
  let ?r1 = "results(item \<mapsto> Inl (Error ''Request failed after all retries''))"
  from Cons.IH[of ?r1 "Suc completed" w]
  obtain results' w' where r:
    "process_batch cfg fn opts totalItems rest (?r1, Suc completed, w)
       = Inr (results', Suc completed + length rest, w')"
    "requestCount w' = requestCount w"
    "\<forall>i. results' i =
       (if i \<in> set rest then Some (Inl (Error ''Request failed after all retries''))
        else ?r1 i)"
    by blast
  have s1: "process_batch cfg fn opts totalItems (item # rest) (results, completed, w)
          = Inr (results', completed + length (item # rest), w')"
    using r(1) by (simp add: process_item_continues[OF assms(1,2)] execute_no_attempt[OF assms(3)])
  have s3: "\<forall>i. results' i =
       (if i \<in> set (item # rest) then Some (Inl (Error ''Request failed after all retries''))
        else results i)"
    using r(3) by auto
  show ?case
    apply (rule exI[of _ results'])
    apply (rule exI[of _ w'])
    apply (intro conjI s1 r(2) s3)
    done
qed

lemma process_batches_no_attempt:
  assumes "quiet opts" and "or_true (continueOnError opts)" and "maxRetries cfg < 0"
  shows "\<exists>results' completed' w'.
           process_batches cfg fn opts totalItems batches (results, completed, w)
             = Inr (results', completed', w')
           \<and> requestCount w' = requestCount w
           \<and> (\<forall>item. results' item =
                 (if item \<in> set (concat batches)
                  then Some (Inl (Error ''Request failed after all retries''))
                  else results item))"
proof (induction batches arbitrary: results completed w)
  case Nil
  then show ?case by simp
next
  case (Cons batch rest)
  from process_batch_no_attempt[OF assms, of fn totalItems batch results completed w]
  obtain r1 w1 where b:
    "process_batch cfg fn opts totalItems batch (results, completed, w)
       = Inr (r1, completed + length batch, w1)"
    "requestCount w1 = requestCount w"
    "\<forall>i. r1 i = (if i \<in> set batch then Some (Inl (Error ''Request failed after all retries''))
                  else results i)"
    by blast
  define v1 where "v1 = (if rest \<noteq> [] then sleep InterBatch (interBatchDelayMs cfg) w1 else w1)"
  have v1: "requestCount v1 = requestCount w1" by (simp add: v1_def sleep_def)
  from Cons.IH[of r1 "completed + length batch" v1]
  obtain r2 c2 w2 where r:
    "process_batches cfg fn opts totalItems rest (r1, completed + length batch, v1)
       = Inr (r2, c2, w2)"
    "requestCount w2 = requestCount v1"
    "\<forall>i. r2 i = (if i \<in> set (concat rest)
                  then Some (Inl (Error ''Request failed after all retries'')) else r1 i)"
    by blast
  have s1: "process_batches cfg fn opts totalItems (batch # rest) (results, completed, w)
          = Inr (r2, c2, w2)"
    using b(1) r(1) by (simp add: v1_def[symmetric] del: process_batch.simps)
  have s2: "requestCount w2 = requestCount w" using r(2) v1 b(2) by simp
  have s3: "\<forall>i. r2 i = (if i \<in> set (concat (batch # rest))
                  then Some (Inl (Error ''Request failed after all retries'')) else results i)"
    using r(3) b(3) by auto
  show ?case
    apply (rule exI[of _ r2])
    apply (rule exI[of _ c2])
    apply (rule exI[of _ w2])
    apply (intro conjI s1 s2 s3)
    done
qed

lemma slice_chunk:
  assumes "0 \<le> i" "0 < bsize"
  shows "slice items i (i + bsize) = take (nat bsize) (drop (nat i) items)"
  using assms by (auto simp: slice_def Let_def min_def)

lemma split_batches_positive:
  assumes "0 < bsize" and "0 \<le> i"
  shows "\<exists>bs. split_batches bsize items i acc = Some (acc @ bs)
              \<and> concat bs = drop (nat i) items"
  using assms(2)
proof (induction "length items - nat i" arbitrary: i acc rule: less_induct)
  case less
  show ?case
  proof (cases "i < int (length items)")
    case False
    then show ?thesis
      using less.prems by (subst split_batches.simps) simp
  next
    case True
    have smaller: "length items - nat (i + bsize) < length items - nat i"
      using True assms(1) less.prems by linarith
    have nonneg: "0 \<le> i + bsize" using assms(1) less.prems by simp
    from less.hyps[OF smaller nonneg, of "acc @ [slice items i (i + bsize)]"]
    obtain bs where bs:
      "split_batches bsize items (i + bsize) (acc @ [slice items i (i + bsize)])
         = Some ((acc @ [slice items i (i + bsize)]) @ bs)"
      "concat bs = drop (nat (i + bsize)) items"
      by blast
    have split: "drop (nat i) items
                 = take (nat bsize) (drop (nat i) items) @ drop (nat (i + bsize)) items"
      using assms(1) less.prems
      by (simp add: nat_add_distrib add.commute[of "nat i"] flip: drop_drop)
    have "split_batches bsize items i acc
            = Some (acc @ (slice items i (i + bsize) # bs))"
      using True bs(1) by (subst split_batches.simps) simp
    moreover have "concat (slice items i (i + bsize) # bs) = drop (nat i) items"
      using bs(2) split by (simp add: slice_chunk[OF less.prems assms(1)])
    ultimately show ?thesis by blast
  qed
qed


lemma run_of_all_fail:
  assumes "run_of cfg f lo hi outcome" and "maxRetries cfg = real m"
    and "\<And>n. snd (f n) = Inl x"
  shows "outcome = Inl (toError x) \<and> hi = lo + m + 1"
proof (cases outcome)
  case (Inr r)
  then show ?thesis using assms(1,3) by (simp add: run_of_def)
next
  case (Inl e)
  then have "e = toError x" "real m < real (hi - lo)" "real (hi - lo - 1) \<le> real m" "lo < hi"
    using assms by (auto simp: run_of_def)
  then show ?thesis using Inl by auto
qed

lemma execute_all_fail:
  assumes "maxRetries cfg = real m" and "\<And>n. snd (f n) = Inl x"
  shows "fst (execute cfg f w) = Inl (toError x)"
    and "requestCount (snd (execute cfg f w)) = requestCount w + m + 1"
proof -
  obtain res w' where e: "execute cfg f w = (res, w')" by (cases "execute cfg f w")
  have "0 \<le> maxRetries cfg" using assms(1) by simp
  from run_of_all_fail[OF execute_run_of[OF this e] assms]
  show "fst (execute cfg f w) = Inl (toError x)"
    and "requestCount (snd (execute cfg f w)) = requestCount w + m + 1"
    by (simp_all add: e)
qed

lemma record_runs_last:
  assumes "item \<in> fst ` set runs"
  shows "\<exists>hi outcome. (item, hi, outcome) \<in> set runs
           \<and> record_runs runs results item = Some outcome"
  using assms
proof (induction runs rule: rev_induct)
  case Nil
  then show ?case by simp
next
  case (snoc run runs)
  show ?case
  proof (cases "fst run = item")
    case True
    then have "(item, fst (snd run), snd (snd run)) \<in> set (runs @ [run])"
      by (cases run) auto
    moreover have "record_runs (runs @ [run]) results item = Some (snd (snd run))"
      using True by (simp add: record_runs_def)
    ultimately show ?thesis by blast
  next
    case False
    then have "item \<in> fst ` set runs" using snoc.prems by auto
    from snoc.IH[OF this] obtain hi outcome where
      "(item, hi, outcome) \<in> set runs" "record_runs runs results item = Some outcome"
      by blast
    then show ?thesis using False by (auto simp: record_runs_def)
  qed
qed






text \<open>What \<^verbatim>\<open>estimateTime\<close> makes of 23 items: 16 seconds, from \<open>23 * 500 + 2 * 2000\<close>
  milliseconds.\<close>

lemma estimateTime_23:
  "estimateTime DEFAULT_CONFIG 23 = \<lparr> estimatedSeconds = Fin 16, estimatedMinutes = Fin 1 \<rparr>"
  by (simp add: estimateTime_def DEFAULT_CONFIG_def Let_def jsub_def num_small)

subsection \<open>Claims about the rate limiter\<close>

text \<open>
  Claim C3, as the specification states it: \<^verbatim>\<open>executeBatch\<close> returns a map with an entry
  for every ticker and a failing ticker never aborts the batch. With the option
  \<^verbatim>\<open>continueOnError: false\<close> the first ticker whose retries are exhausted ends the call: the
  error is thrown and no map is returned; the four requests made are the four attempts
  for the first ticker, and the second ticker is never fetched.
\<close>

theorem C3_counterexample:
  "map_option fst
     (executeBatch DEFAULT_CONFIG [''AAPL'', ''MSFT''] not_found_fetch stop_on_error fresh_world)
   = Some (Inl (ThrownError (Error ''Not Found'')))
   \<and> map_option (requestCount \<circ> snd)
     (executeBatch DEFAULT_CONFIG [''AAPL'', ''MSFT''] not_found_fetch stop_on_error fresh_world)
   = Some 4"
proof -
  have b: "split_batches 10 [''AAPL'', ''MSFT''] 0 [] = Some [ [''AAPL'', ''MSFT''] ]"
    by (simp add: split_batches.simps slice_def)
  have m: "maxRetries DEFAULT_CONFIG = real 3" by (simp add: DEFAULT_CONFIG_def)
  have e: "fst (execute DEFAULT_CONFIG (not_found_fetch ''AAPL'') fresh_world)
           = Inl (Error ''Not Found'')"
    "requestCount (snd (execute DEFAULT_CONFIG (not_found_fetch ''AAPL'') fresh_world)) = 4"
    using execute_all_fail[of DEFAULT_CONFIG 3 "not_found_fetch ''AAPL''"
        "ThrownError (Error ''Not Found'')" fresh_world, OF m]
    by (simp_all add: not_found_fetch_def toError_def fresh_world_def)
  show ?thesis
    using e
    by (cases "execute DEFAULT_CONFIG (not_found_fetch ''AAPL'') fresh_world")
       (simp add: executeBatch_def DEFAULT_CONFIG_def[THEN arg_cong, of batchSize] b
          process_item_def stop_on_error_def call_back_def or_true_def Let_def)
qed

text \<open>
  Claim C3, amended: when \<^verbatim>\<open>continueOnError\<close> is not switched off (it defaults to true),
  the batch size is positive and no callback throws, \<^verbatim>\<open>executeBatch\<close> returns, for every
  list of tickers and every fetch function, a map whose keys are exactly the tickers of
  the list; no failure ends the batch. With a retry limit of zero or more, the requests
  issued during the call are, in the order of the list, one run of consecutive requests
  for each position of the list, all to the fetch of that position's ticker: at most
  \<^verbatim>\<open>maxRetries + 1\<close> of them, of which all but the last failed. The entry of a ticker is
  the outcome of its run (of the last one, when the ticker is listed more than once):
  the value of the run's last request, or, when that request failed as well and no
  attempt was left, the \<^verbatim>\<open>Error\<close> made of what it threw. With a negative retry limit no
  request is issued and every entry is the stock error.
\<close>

theorem C3_executeBatch_complete:
  assumes "0 < batchSize cfg" and "or_true (continueOnError opts)" and "quiet opts"
  shows "\<exists>results w'.
           executeBatch cfg items fn opts w = Some (Inr results, w')
           \<and> dom results = set items
           \<and> (0 \<le> maxRetries cfg \<longrightarrow>
                (\<exists>runs. map fst runs = items
                   \<and> schedule_of cfg fn runs (requestCount w) (requestCount w')
                   \<and> results = record_runs runs Map.empty
                   \<and> (\<forall>item \<in> set items. \<exists>hi outcome.
                         (item, hi, outcome) \<in> set runs \<and> results item = Some outcome)))
           \<and> (maxRetries cfg < 0 \<longrightarrow>
                requestCount w' = requestCount w
                \<and> (\<forall>item \<in> set items.
                     results item = Some (Inl (Error ''Request failed after all retries''))))"
proof -
  from split_batches_positive[OF assms(1), of 0 items "[]"]
  obtain bs where bs: "split_batches (batchSize cfg) items 0 [] = Some bs" "concat bs = items"
    by auto
  show ?thesis
  proof (cases "0 \<le> maxRetries cfg")
    case True
    from process_batches_runs[OF assms(3,2) True, of fn "length items" bs Map.empty 0 w]
    obtain runs c w' where r:
      "process_batches cfg fn opts (length items) bs (Map.empty, 0, w)
         = Inr (record_runs runs Map.empty, c, w')"
      "map fst runs = concat bs" "schedule_of cfg fn runs (requestCount w) (requestCount w')"
      by blast
    define results where "results = record_runs runs (Map.empty :: 'a \<rightharpoonup> (Error + 'b))"
    have ret: "executeBatch cfg items fn opts w = Some (Inr results, w')"
      by (simp add: executeBatch_def bs(1) r(1) results_def)
    have keys: "dom results = set items"
      using dom_record_runs[of runs Map.empty] r(2) bs(2) by (simp add: results_def)
    have names: "map fst runs = items" using r(2) bs(2) by simp
    have each: "\<forall>item \<in> set items. \<exists>hi outcome.
                  (item, hi, outcome) \<in> set runs \<and> results item = Some outcome"
    proof
      fix item assume "item \<in> set items"
      then have "item \<in> fst ` set runs" using names by (metis set_map)
      from record_runs_last[OF this, of Map.empty]
      show "\<exists>hi outcome. (item, hi, outcome) \<in> set runs \<and> results item = Some outcome"
        by (simp add: results_def)
    qed
    have pos: "0 \<le> maxRetries cfg \<longrightarrow>
                (\<exists>runs. map fst runs = items
                   \<and> schedule_of cfg fn runs (requestCount w) (requestCount w')
                   \<and> results = record_runs runs Map.empty
                   \<and> (\<forall>item \<in> set items. \<exists>hi outcome.
                         (item, hi, outcome) \<in> set runs \<and> results item = Some outcome))"
      using names r(3) each results_def by blast
    have neg: "maxRetries cfg < 0 \<longrightarrow>
                requestCount w' = requestCount w
                \<and> (\<forall>item \<in> set items.
                     results item = Some (Inl (Error ''Request failed after all retries'')))"
      using True by simp
    show ?thesis
      apply (rule exI[of _ results])
      apply (rule exI[of _ w'])
      apply (intro conjI ret keys pos neg)
      done
  next
    case False
    then have n: "maxRetries cfg < 0" by simp
    from process_batches_no_attempt[OF assms(3,2) n, of fn "length items" bs Map.empty 0 w]
    obtain results c w' where r:
      "process_batches cfg fn opts (length items) bs (Map.empty, 0, w) = Inr (results, c, w')"
      "requestCount w' = requestCount w"
      "\<forall>item. results item =
         (if item \<in> set (concat bs) then Some (Inl (Error ''Request failed after all retries''))
          else Map.empty item)"
      by blast
    have ret: "executeBatch cfg items fn opts w = Some (Inr results, w')"
      by (simp add: executeBatch_def bs(1) r(1))
    have keys: "dom results = set items"
      using r(3) bs(2) by (auto simp: dom_def)
    have pos: "0 \<le> maxRetries cfg \<longrightarrow>
                (\<exists>runs. map fst runs = items
                   \<and> schedule_of cfg fn runs (requestCount w) (requestCount w')
                   \<and> results = record_runs runs Map.empty
                   \<and> (\<forall>item \<in> set items. \<exists>hi outcome.
                         (item, hi, outcome) \<in> set runs \<and> results item = Some outcome))"
      using False by simp
    have neg: "maxRetries cfg < 0 \<longrightarrow>
                requestCount w' = requestCount w
                \<and> (\<forall>item \<in> set items.
                     results item = Some (Inl (Error ''Request failed after all retries'')))"
      using r(2,3) bs(2) by simp
    show ?thesis
      apply (rule exI[of _ results])
      apply (rule exI[of _ w'])
      apply (intro conjI ret keys pos neg)
      done
  qed
qed

theorem C3_executeBatch_complete_witness:
  "\<exists>results w'.
     executeBatch DEFAULT_CONFIG [''AAPL'', ''MSFT''] not_found_fetch default_options fresh_world
       = Some (Inr results, w')
     \<and> dom results = {''AAPL'', ''MSFT''}
     \<and> results ''AAPL'' = Some (Inl (Error ''Not Found''))
     \<and> results ''MSFT'' = Some (Inl (Error ''Not Found''))
     \<and> requestCount w' = 8"
proof -
  have h: "0 < batchSize DEFAULT_CONFIG" "or_true (continueOnError default_options)"
    "quiet default_options"
    by (simp_all add: DEFAULT_CONFIG_def default_options_def or_true_def quiet_def)
  have m: "maxRetries DEFAULT_CONFIG = real 3" "0 \<le> maxRetries DEFAULT_CONFIG"
    by (simp_all add: DEFAULT_CONFIG_def)
  from C3_executeBatch_complete[OF h, of "[''AAPL'', ''MSFT'']" not_found_fetch fresh_world]
  obtain results w' where all:
    "executeBatch DEFAULT_CONFIG [''AAPL'', ''MSFT''] not_found_fetch default_options fresh_world
       = Some (Inr results, w')
     \<and> dom results = set [''AAPL'', ''MSFT'']
     \<and> (0 \<le> maxRetries DEFAULT_CONFIG \<longrightarrow>
          (\<exists>runs. map fst runs = [''AAPL'', ''MSFT'']
             \<and> schedule_of DEFAULT_CONFIG not_found_fetch runs (requestCount fresh_world)
                  (requestCount w')
             \<and> results = record_runs runs Map.empty
             \<and> (\<forall>item \<in> set [''AAPL'', ''MSFT'']. \<exists>hi outcome.
                   (item, hi, outcome) \<in> set runs \<and> results item = Some outcome)))
     \<and> (maxRetries DEFAULT_CONFIG < 0 \<longrightarrow>
          requestCount w' = requestCount fresh_world
          \<and> (\<forall>item \<in> set [''AAPL'', ''MSFT''].
               results item = Some (Inl (Error ''Request failed after all retries''))))"
    by (elim exE)
  note r = all[THEN conjunct1] all[THEN conjunct2, THEN conjunct1]
  from all[THEN conjunct2, THEN conjunct2, THEN conjunct1, THEN mp, OF m(2)]
  obtain runs where runs': "map fst runs = [''AAPL'', ''MSFT'']
             \<and> schedule_of DEFAULT_CONFIG not_found_fetch runs (requestCount fresh_world)
                  (requestCount w')
             \<and> results = record_runs runs Map.empty
             \<and> (\<forall>item \<in> set [''AAPL'', ''MSFT'']. \<exists>hi outcome.
                   (item, hi, outcome) \<in> set runs \<and> results item = Some outcome)" ..
  note runs = runs'[THEN conjunct1] runs'[THEN conjunct2, THEN conjunct1]
    runs'[THEN conjunct2, THEN conjunct2, THEN conjunct1]
  from runs(1) obtain h1 o1 h2 o2 where shape: "runs = [(''AAPL'', h1, o1), (''MSFT'', h2, o2)]"
    by (auto simp: map_eq_Cons_conv)
  have f: "snd (not_found_fetch t n) = Inl (ThrownError (Error ''Not Found''))" for t n
    by (simp add: not_found_fetch_def)
  from runs(2) have s: "run_of DEFAULT_CONFIG (not_found_fetch ''AAPL'') 0 h1 o1"
    "run_of DEFAULT_CONFIG (not_found_fetch ''MSFT'') h1 h2 o2" "h2 = requestCount w'"
    by (auto simp: shape fresh_world_def)
  from run_of_all_fail[OF s(1) m(1) f] have 1: "o1 = Inl (Error ''Not Found'')" "h1 = 4"
    by (simp_all add: toError_def)
  from run_of_all_fail[OF s(2) m(1) f] have 2: "o2 = Inl (Error ''Not Found'')" "h2 = 8"
    using 1(2) by (simp_all add: toError_def)
  have "results ''AAPL'' = Some (Inl (Error ''Not Found''))"
       "results ''MSFT'' = Some (Inl (Error ''Not Found''))"
    by (simp_all add: runs(3) shape record_runs_def 1 2)
  then show ?thesis using r(1,2) s(3) 2(2) by auto
qed







section \<open>Properties of the schema\<close>

lemmas schema_eval =
  SCHEMA_SQL_def portfolios_def holdings_def transactions_def snapshots_def stock_scores_def
  idx_def col_def col_nn_def col_def_def id_text_def id_auto_def portfolio_fk_def
  find_table_def find_columns_def default_in_unit_interval_def

text \<open>
  Claim C9: the schema creates exactly the five tables \<^verbatim>\<open>portfolios\<close>, \<^verbatim>\<open>holdings\<close>,
  \<^verbatim>\<open>transactions\<close>, \<^verbatim>\<open>snapshots\<close> and \<^verbatim>\<open>stock_scores\<close>; \<^verbatim>\<open>holdings\<close> is unique on
  \<open>(portfolio_id, ticker)\<close>; the \<^verbatim>\<open>action\<close> of a transaction is checked to be \<^verbatim>\<open>BUY\<close> or
  \<^verbatim>\<open>SELL\<close>; a snapshot keeps its holdings in the one text column \<^verbatim>\<open>holdings_data\<close>; and
  the three percentage columns of \<^verbatim>\<open>portfolios\<close> default to 0.10, 0.02 and 0.25, decimals
  between 0 and 1.
\<close>

theorem C9_schema:
  "map table_name (tables_of SCHEMA_SQL)
     = [''portfolios'', ''holdings'', ''transactions'', ''snapshots'', ''stock_scores'']
   \<and> map_option unique_constraints (find_table ''holdings'') = Some [ [''portfolio_id'', ''ticker''] ]
   \<and> map check_in (find_columns ''transactions'' ''action'') = [Some [''BUY'', ''SELL'']]
   \<and> map col_type (find_columns ''snapshots'' ''holdings_data'') = [TEXT]
   \<and> map not_null (find_columns ''snapshots'' ''holdings_data'') = [True]
   \<and> map default_value (find_columns ''portfolios'' ''max_position_pct'') = [Some (DefaultReal 0.10)]
   \<and> map default_value (find_columns ''portfolios'' ''min_position_pct'') = [Some (DefaultReal 0.02)]
   \<and> map default_value (find_columns ''portfolios'' ''max_sector_pct'') = [Some (DefaultReal 0.25)]
   \<and> map default_in_unit_interval
        (find_columns ''portfolios'' ''max_position_pct''
         @ find_columns ''portfolios'' ''min_position_pct''
         @ find_columns ''portfolios'' ''max_sector_pct'') = [True, True, True]"
  by (simp add: schema_eval)

end
